theory Spec2Isabelle
  imports Complex_Main "HOL-Library.Char_ord" "HOL-Library.List_Lexorder"
begin

section \<open>queuectl: the job store, the backoff policy and the worker loop\<close>

text \<open>
  A shallow embedding of \<^verbatim>\<open>queuectl/storage.py\<close>, \<^verbatim>\<open>queuectl/backoff.py\<close>,
  \<^verbatim>\<open>queuectl/worker.py\<close> and of \<^verbatim>\<open>cmd_enqueue\<close> in \<^verbatim>\<open>queuectl/cli.py\<close>.

  Conventions of the embedding.
  \<^item> The SQLite database is a record \<open>store\<close> with one field per table. A table is the
    list of its rows in the order of their insertion (for \<^verbatim>\<open>jobs\<close> and \<^verbatim>\<open>dlq\<close> this is
    the rowid order); the two key-value tables are maps.
  \<^item> A column that admits \<^verbatim>\<open>NULL\<close> has an \<open>option\<close> type, \<open>None\<close> being \<^verbatim>\<open>NULL\<close>. This
    includes \<^verbatim>\<open>jobs.id\<close>: a \<^verbatim>\<open>TEXT PRIMARY KEY\<close> with no \<^verbatim>\<open>NOT NULL\<close> admits \<^verbatim>\<open>NULL\<close>,
    any number of times.
  \<^item> Every operation takes the store and returns the new one (with its result, if any).
    One call is one atomic step: this is what \<^verbatim>\<open>BEGIN IMMEDIATE\<close> ... \<^verbatim>\<open>COMMIT\<close>, or a
    single statement in autocommit mode, gives a caller. Faults of SQLite itself (an
    unreadable file, a lock timeout) are outside the model.
  \<^item> A Python exception is a value of type \<open>error\<close>; an operation that raises leaves the
    store as it was (the statement fails, or the transaction is rolled back).
  \<^item> The clock is an input: every \<^verbatim>\<open>time.time()\<close> is a parameter of type \<open>real\<close> and every
    \<^verbatim>\<open>_now_iso()\<close> a parameter of type \<open>string\<close>, in the order the code reads them.
  \<^item> A finite float is the real number it denotes. What floats do that real numbers do
    not (rounding, \<^verbatim>\<open>OverflowError\<close>) is in the operations on them, which are parameters
    of the model (record \<open>platform\<close>), as are the conversions of a text by \<^verbatim>\<open>int\<close> and
    \<^verbatim>\<open>float\<close> and the choice SQLite makes among rows with equal sort keys. Infinite
    floats and NaN are outside the model.
  \<^item> An \<^verbatim>\<open>INTEGER\<close> column holds 64-bit signed integers: binding a Python integer outside
    this range raises \<^verbatim>\<open>OverflowError\<close>.
  \<^item> \<^verbatim>\<open>TEXT\<close> columns are compared as SQLite's \<^verbatim>\<open>BINARY\<close> collation does, byte by
    byte: the lexicographic order on \<open>string\<close>.
\<close>

subsection \<open>Data model\<close>

text \<open>A row of table \<^verbatim>\<open>jobs\<close>; column \<^verbatim>\<open>id\<close> is the field \<open>id_col\<close>.\<close>

record job =
  id_col :: "string option"
  command :: string
  state :: string
  attempts :: int
  max_retries :: int
  eta :: "real option"
  created_at :: string
  updated_at :: string

text \<open>
  A row of table \<^verbatim>\<open>dlq\<close>; column \<^verbatim>\<open>id\<close> (\<^verbatim>\<open>AUTOINCREMENT\<close>) is the field \<open>dlq_id\<close>. The
  payload is \<^verbatim>\<open>json.dumps(job_row)\<close>, kept here as the dictionary it serialises.
\<close>

record dlq_row =
  dlq_id :: nat
  job_id :: string
  payload :: job
  last_error :: string
  failed_at :: string

text \<open>A row of table \<^verbatim>\<open>workers\<close>.\<close>

record worker_row =
  pid :: int
  started_at :: string
  queues :: string

text \<open>
  The database. \<open>dlq_seq\<close> is the \<^verbatim>\<open>sqlite_sequence\<close> counter of the \<^verbatim>\<open>AUTOINCREMENT\<close>
  key of \<^verbatim>\<open>dlq\<close>.
\<close>

record store =
  jobs :: "job list"
  dlq :: "dlq_row list"
  dlq_seq :: nat
  workers :: "worker_row list"
  control :: "string \<rightharpoonup> string"
  config :: "string \<rightharpoonup> string"

text \<open>The database after \<^verbatim>\<open>_init_db\<close> on a new file.\<close>

definition empty_store :: store where
  "empty_store =
     \<lparr>jobs = [], dlq = [], dlq_seq = 0, workers = [], control = Map.empty, config = Map.empty\<rparr>"

text \<open>
  A key of the dictionary given to \<^verbatim>\<open>enqueue\<close> (the parsed JSON payload): the key is
  absent, or its value is \<^verbatim>\<open>null\<close>, or it is a value of the type of the column.
\<close>

datatype 'a entry = Absent | Null | Val 'a

record job_input =
  in_id :: "string entry"
  in_command :: "string entry"
  in_state :: "string entry"
  in_attempts :: "int entry"
  in_max_retries :: "int entry"
  in_created_at :: "string entry"
  in_updated_at :: "string entry"

datatype error =
  KeyError string
  | TypeError string
  | ValueError string
  | OverflowError string
  | IntegrityError string

text \<open>
  What the model takes from outside the repository.
  \<^item> \<open>sql_pick\<close>: \<^verbatim>\<open>ORDER BY ... LIMIT 1\<close> leaves open which row comes first among rows
    with equal sort keys; SQLite's choice is this function, from the parameter of the query
    and the rows of the table to an index into the tied rows.
  \<^item> \<open>py_int\<close>, \<open>py_float\<close>: the built-ins \<^verbatim>\<open>int\<close> and \<^verbatim>\<open>float\<close> on a text or \<^verbatim>\<open>None\<close>: the
    number, or the exception (\<^verbatim>\<open>ValueError\<close>, \<^verbatim>\<open>TypeError\<close>).
  \<^item> \<open>float_of_int\<close>: \<^verbatim>\<open>float\<close> on an integer: the float, or \<^verbatim>\<open>OverflowError\<close>.
  \<^item> \<open>float_pow\<close>: \<^verbatim>\<open>x ** y\<close> on floats: the float, or the exception
    (\<^verbatim>\<open>OverflowError\<close> when the result is out of range).
  \<^item> \<open>float_add\<close>: \<^verbatim>\<open>x + y\<close> on floats.
\<close>

record platform =
  sql_pick :: "real \<Rightarrow> job list \<Rightarrow> nat"
  py_int :: "string option \<Rightarrow> error + int"
  py_float :: "string option \<Rightarrow> error + real"
  float_of_int :: "int \<Rightarrow> error + real"
  float_pow :: "real \<Rightarrow> real \<Rightarrow> error + real"
  float_add :: "real \<Rightarrow> real \<Rightarrow> real"

subsection \<open>backoff.py\<close>

text \<open>
  \<^verbatim>\<open>if attempts < 0: attempts = 0; return float(base) ** float(attempts)\<close>. \<open>base\<close> is a
  float already (the worker passes \<^verbatim>\<open>float(...)\<close>), so \<^verbatim>\<open>float(base)\<close> is \<open>base\<close>.
\<close>

definition compute_delay :: "platform \<Rightarrow> real \<Rightarrow> int \<Rightarrow> error + real" where
  "compute_delay pl base n =
     (let n' = (if n < 0 then 0 else n) in
      case float_of_int pl n' of
        Inl x \<Rightarrow> Inl x
      | Inr y \<Rightarrow> float_pow pl base y)"

subsection \<open>storage.py: job primitives\<close>

text \<open>\<^verbatim>\<open>job[key]\<close>: \<^verbatim>\<open>KeyError\<close> on an absent key, \<^verbatim>\<open>None\<close> on \<^verbatim>\<open>null\<close>.\<close>

definition subscript :: "'a entry \<Rightarrow> string \<Rightarrow> error + 'a option" where
  "subscript x key =
     (case x of Absent \<Rightarrow> Inl (KeyError key) | Null \<Rightarrow> Inr None | Val v \<Rightarrow> Inr (Some v))"

text \<open>\<^verbatim>\<open>job.get(key) or d\<close>: an absent key, \<^verbatim>\<open>null\<close> and the empty string are falsy.\<close>

definition or_else :: "string entry \<Rightarrow> string \<Rightarrow> string" where
  "or_else x d = (case x of Absent \<Rightarrow> d | Null \<Rightarrow> d | Val v \<Rightarrow> if v = [] then d else v)"

text \<open>\<^verbatim>\<open>int(job.get(key, d))\<close>: \<^verbatim>\<open>int(None)\<close> raises \<^verbatim>\<open>TypeError\<close>.\<close>

definition get_int :: "platform \<Rightarrow> int entry \<Rightarrow> int \<Rightarrow> error + int" where
  "get_int pl x d = (case x of Absent \<Rightarrow> Inr d | Null \<Rightarrow> py_int pl None | Val v \<Rightarrow> Inr v)"

text \<open>The range of an \<^verbatim>\<open>INTEGER\<close> column.\<close>

definition fits_int64 :: "int \<Rightarrow> bool" where
  "fits_int64 n = (- (2 ^ 63) \<le> n \<and> n < 2 ^ 63)"

text \<open>
  \<^verbatim>\<open>UPDATE jobs SET ... WHERE id=?\<close>: the assignment \<open>f\<close> applied to every row with the id.
  In SQL, \<^verbatim>\<open>id = ?\<close> is not true when either side is \<^verbatim>\<open>NULL\<close>.
\<close>

definition sql_eq :: "'a option \<Rightarrow> 'a option \<Rightarrow> bool" where
  "sql_eq a b = (a \<noteq> None \<and> a = b)"

definition update_jobs :: "string option \<Rightarrow> (job \<Rightarrow> job) \<Rightarrow> job list \<Rightarrow> job list" where
  "update_jobs i f rows = map (\<lambda>r. if sql_eq (id_col r) i then f r else r) rows"

text \<open>
  \<^verbatim>\<open>Storage.enqueue\<close>. \<open>now_iso\<close> is the value of \<^verbatim>\<open>_now_iso()\<close>. The exceptions, in the
  order the code can raise them: \<^verbatim>\<open>KeyError\<close> for \<^verbatim>\<open>"id"\<close>, \<^verbatim>\<open>TypeError\<close> from \<^verbatim>\<open>int\<close>,
  \<^verbatim>\<open>KeyError\<close> for \<^verbatim>\<open>"command"\<close>; then, in the \<^verbatim>\<open>INSERT\<close>, \<^verbatim>\<open>OverflowError\<close> when an integer
  does not fit the column, and \<^verbatim>\<open>IntegrityError\<close> for a \<^verbatim>\<open>NULL\<close> command and for an id that
  exists (a \<^verbatim>\<open>NULL\<close> id equals no id). The result is \<^verbatim>\<open>job_id\<close>, which is \<^verbatim>\<open>None\<close> for a
  \<^verbatim>\<open>null\<close> id.
\<close>

definition enqueue ::
  "platform \<Rightarrow> string \<Rightarrow> job_input \<Rightarrow> store \<Rightarrow> store \<times> (error + string option)" where
  "enqueue pl now_iso j s =
     (case subscript (in_id j) ''id'' of
        Inl x \<Rightarrow> (s, Inl x)
      | Inr jid \<Rightarrow>
          let created = or_else (in_created_at j) now_iso;
              updated = or_else (in_updated_at j) created;
              st = or_else (in_state j) ''pending''
          in
          (case get_int pl (in_max_retries j) 3 of
             Inl x \<Rightarrow> (s, Inl x)
           | Inr mr \<Rightarrow>
               (case get_int pl (in_attempts j) 0 of
                  Inl x \<Rightarrow> (s, Inl x)
                | Inr att \<Rightarrow>
                    (case subscript (in_command j) ''command'' of
                       Inl x \<Rightarrow> (s, Inl x)
                     | Inr cmd \<Rightarrow>
                         if \<not> (fits_int64 att \<and> fits_int64 mr)
                         then (s, Inl (OverflowError
                                 ''Python int too large to convert to SQLite INTEGER''))
                         else
                           (case cmd of
                              None \<Rightarrow>
                                (s, Inl (IntegrityError
                                     ''NOT NULL constraint failed: jobs.command''))
                            | Some c \<Rightarrow>
                                if list_ex (\<lambda>r. sql_eq (id_col r) jid) (jobs s)
                                then (s, Inl (IntegrityError
                                        ''UNIQUE constraint failed: jobs.id''))
                                else
                                  (s\<lparr>jobs := jobs s @
                                      [\<lparr>id_col = jid, command = c, state = st,
                                        attempts = att, max_retries = mr, eta = None,
                                        created_at = created, updated_at = updated\<rparr>]\<rparr>,
                                   Inr jid))))))"

text \<open>\<^verbatim>\<open>Storage.get_job\<close> and \<^verbatim>\<open>Storage.delete_job\<close>, on a text \<^verbatim>\<open>job_id\<close>.\<close>

definition get_job :: "string \<Rightarrow> store \<Rightarrow> job option" where
  "get_job i s = find (\<lambda>r. id_col r = Some i) (jobs s)"

definition delete_job :: "string \<Rightarrow> store \<Rightarrow> store \<times> bool" where
  "delete_job i s =
     (s\<lparr>jobs := filter (\<lambda>r. id_col r \<noteq> Some i) (jobs s)\<rparr>,
      list_ex (\<lambda>r. id_col r = Some i) (jobs s))"

text \<open>
  The \<^verbatim>\<open>WHERE\<close> clause of the claim query:
  \<^verbatim>\<open>state='pending' AND (eta IS NULL OR eta <= ?)\<close>.
\<close>

definition eligible :: "real \<Rightarrow> job \<Rightarrow> bool" where
  "eligible now r =
     (state r = ''pending'' \<and> (case eta r of None \<Rightarrow> True | Some e \<Rightarrow> e \<le> now))"

text \<open>
  \<^verbatim>\<open>ORDER BY eta IS NOT NULL, created_at ASC\<close>: \<open>precedes a b\<close> when \<open>a\<close> sorts strictly
  before \<open>b\<close>.
\<close>

definition precedes :: "job \<Rightarrow> job \<Rightarrow> bool" where
  "precedes a b =
     (if (eta a = None) = (eta b = None) then created_at a < created_at b
      else eta a = None)"

text \<open>
  \<^verbatim>\<open>LIMIT 1\<close> of the ordered rows: one of the rows that no row precedes. Which of them
  is SQLite's choice, \<open>pick\<close>, read as an index into them (modulo their number).
\<close>

definition minimal_rows :: "job list \<Rightarrow> job list" where
  "minimal_rows rows = filter (\<lambda>r. list_all (\<lambda>x. \<not> precedes x r) rows) rows"

definition first_row :: "nat \<Rightarrow> job list \<Rightarrow> job option" where
  "first_row pick rows =
     (case minimal_rows rows of
        [] \<Rightarrow> None
      | m # ms \<Rightarrow> Some ((m # ms) ! (pick mod length (m # ms))))"

text \<open>
  \<^verbatim>\<open>Storage.pop_pending_for_run\<close>. \<open>now\<close> is \<^verbatim>\<open>time.time()\<close> and \<open>now_iso\<close> is
  \<^verbatim>\<open>_now_iso()\<close>. The result is \<^verbatim>\<open>dict(row)\<close> of the row that the \<^verbatim>\<open>SELECT\<close> fetched. The
  \<^verbatim>\<open>UPDATE\<close> is by the id of that row: for a \<^verbatim>\<open>NULL\<close> id it matches no row.
\<close>

definition pop_pending_for_run ::
  "platform \<Rightarrow> real \<Rightarrow> string \<Rightarrow> store \<Rightarrow> store \<times> job option" where
  "pop_pending_for_run pl now now_iso s =
     (case first_row (sql_pick pl now (jobs s)) (filter (eligible now) (jobs s)) of
        None \<Rightarrow> (s, None)
      | Some row \<Rightarrow>
          (s\<lparr>jobs := update_jobs (id_col row)
                 (\<lambda>r. r\<lparr>state := ''processing'', updated_at := now_iso\<rparr>) (jobs s)\<rparr>,
           Some row))"

text \<open>\<^verbatim>\<open>Storage.mark_completed\<close>. The worker passes \<^verbatim>\<open>job["id"]\<close>, which can be \<^verbatim>\<open>None\<close>.\<close>

definition mark_completed :: "string \<Rightarrow> string option \<Rightarrow> store \<Rightarrow> store" where
  "mark_completed now_iso i s =
     s\<lparr>jobs := update_jobs i
          (\<lambda>r. r\<lparr>state := ''completed'', updated_at := now_iso, eta := None\<rparr>) (jobs s)\<rparr>"

text \<open>
  \<^verbatim>\<open>Storage.mark_failed_retry\<close>; \<open>now\<close> is \<^verbatim>\<open>time.time()\<close>. Binding an \<open>attempts\<close> that does
  not fit the column raises \<^verbatim>\<open>OverflowError\<close>.
\<close>

definition mark_failed_retry ::
  "platform \<Rightarrow> real \<Rightarrow> string \<Rightarrow> string option \<Rightarrow> int \<Rightarrow> real \<Rightarrow> store \<Rightarrow> store \<times> error option"
  where
  "mark_failed_retry pl now now_iso i att delay_seconds s =
     (let next_eta = float_add pl now delay_seconds in
      if \<not> fits_int64 att
      then (s, Some (OverflowError ''Python int too large to convert to SQLite INTEGER''))
      else
        (s\<lparr>jobs := update_jobs i
             (\<lambda>r. r\<lparr>state := ''failed'', attempts := att, eta := Some next_eta,
                    updated_at := now_iso\<rparr>) (jobs s)\<rparr>,
         None))"

text \<open>
  \<^verbatim>\<open>Storage.move_to_dlq\<close>: the two statements of its transaction. \<open>iso1\<close> and \<open>iso2\<close> are
  the two readings of \<^verbatim>\<open>_now_iso()\<close>. \<^verbatim>\<open>dlq.job_id\<close> is \<^verbatim>\<open>NOT NULL\<close>: for a row with a
  \<^verbatim>\<open>NULL\<close> id the \<^verbatim>\<open>INSERT\<close> raises \<^verbatim>\<open>IntegrityError\<close> and the transaction is rolled back.
\<close>

definition move_to_dlq ::
  "string \<Rightarrow> string \<Rightarrow> job \<Rightarrow> string \<Rightarrow> store \<Rightarrow> store \<times> error option" where
  "move_to_dlq iso1 iso2 job_row err s =
     (case id_col job_row of
        None \<Rightarrow> (s, Some (IntegrityError ''NOT NULL constraint failed: dlq.job_id''))
      | Some i \<Rightarrow>
          (s\<lparr>dlq := dlq s @
               [\<lparr>dlq_id = Suc (dlq_seq s), job_id = i, payload = job_row,
                 last_error = err, failed_at = iso1\<rparr>],
            dlq_seq := Suc (dlq_seq s),
            jobs := update_jobs (Some i)
               (\<lambda>r. r\<lparr>state := ''dead'', updated_at := iso2, eta := None\<rparr>) (jobs s)\<rparr>,
           None))"

text \<open>\<^verbatim>\<open>Storage.retry_from_dlq\<close>, on a text \<^verbatim>\<open>job_id\<close>.\<close>

definition retry_from_dlq :: "string \<Rightarrow> string \<Rightarrow> store \<Rightarrow> store \<times> bool" where
  "retry_from_dlq now_iso i s =
     (if \<not> list_ex (\<lambda>d. job_id d = i) (dlq s) then (s, False)
      else
        (s\<lparr>jobs := update_jobs (Some i)
              (\<lambda>r. r\<lparr>state := ''pending'', attempts := 0, eta := None,
                     updated_at := now_iso\<rparr>) (jobs s),
           dlq := filter (\<lambda>d. job_id d \<noteq> i) (dlq s)\<rparr>,
         True))"

subsection \<open>storage.py: workers, control flag, configuration\<close>

text \<open>\<^verbatim>\<open>INSERT OR REPLACE\<close> deletes the row with the key, then inserts.\<close>

definition register_worker :: "string \<Rightarrow> int \<Rightarrow> string \<Rightarrow> store \<Rightarrow> store" where
  "register_worker now_iso p qs s =
     s\<lparr>workers := filter (\<lambda>w. pid w \<noteq> p) (workers s) @
          [\<lparr>pid = p, started_at = now_iso, queues = qs\<rparr>]\<rparr>"

definition deregister_worker :: "int \<Rightarrow> store \<Rightarrow> store" where
  "deregister_worker p s = s\<lparr>workers := filter (\<lambda>w. pid w \<noteq> p) (workers s)\<rparr>"

definition request_stop :: "store \<Rightarrow> store" where
  "request_stop s = s\<lparr>control := (control s)(''stop_requested'' \<mapsto> ''1'')\<rparr>"

definition clear_stop :: "store \<Rightarrow> store" where
  "clear_stop s = s\<lparr>control := (control s)(''stop_requested'' := None)\<rparr>"

definition is_stop_requested :: "store \<Rightarrow> bool" where
  "is_stop_requested s = (control s ''stop_requested'' \<noteq> None)"

definition config_set :: "string \<Rightarrow> string \<Rightarrow> store \<Rightarrow> store" where
  "config_set k v s = s\<lparr>config := (config s)(k \<mapsto> v)\<rparr>"

definition config_get :: "string \<Rightarrow> string option \<Rightarrow> store \<Rightarrow> string option" where
  "config_get k dflt s = (case config s k of Some v \<Rightarrow> Some v | None \<Rightarrow> dflt)"

subsection \<open>cli.py: cmd_enqueue\<close>

text \<open>
  \<^verbatim>\<open>cmd_enqueue\<close> from the parsed payload on: the two defaults it fills when the key is not
  in the payload, then \<^verbatim>\<open>db.enqueue(payload)\<close>.
\<close>

definition cmd_enqueue ::
  "platform \<Rightarrow> string \<Rightarrow> job_input \<Rightarrow> store \<Rightarrow> store \<times> (error + string option)" where
  "cmd_enqueue pl now_iso p s =
     (case (if in_max_retries p = Absent
            then (case py_int pl (config_get ''max_retries'' (Some ''3'') s) of
                    Inl x \<Rightarrow> Inl x
                  | Inr m \<Rightarrow> Inr (p\<lparr>in_max_retries := Val m\<rparr>))
            else Inr p) of
        Inl x \<Rightarrow> (s, Inl x)
      | Inr p1 \<Rightarrow>
          enqueue pl now_iso
            (if in_state p1 = Absent then p1\<lparr>in_state := Val ''pending''\<rparr> else p1) s)"

subsection \<open>worker.py\<close>

text \<open>
  \<^verbatim>\<open>type(e).__name__\<close> and \<^verbatim>\<open>str(e)\<close> of an exception. The text of a \<^verbatim>\<open>KeyError\<close> is
  the key in quotes.
\<close>

fun exc_name :: "error \<Rightarrow> string" where
  "exc_name (KeyError _) = ''KeyError''"
| "exc_name (TypeError _) = ''TypeError''"
| "exc_name (ValueError _) = ''ValueError''"
| "exc_name (OverflowError _) = ''OverflowError''"
| "exc_name (IntegrityError _) = ''IntegrityError''"

fun exc_str :: "error \<Rightarrow> string" where
  "exc_str (KeyError k) = [CHR 0x27] @ k @ [CHR 0x27]"
| "exc_str (TypeError m) = m"
| "exc_str (ValueError m) = m"
| "exc_str (OverflowError m) = m"
| "exc_str (IntegrityError m) = m"

text \<open>\<^verbatim>\<open>str\<close> of an integer, for \<^verbatim>\<open>f"Exit {result.returncode}"\<close>.\<close>

fun str_nat :: "nat \<Rightarrow> string" where
  "str_nat n =
     (if n < 10 then [''0123456789'' ! n]
      else str_nat (n div 10) @ [''0123456789'' ! (n mod 10)])"

declare str_nat.simps [simp del]

definition str_int :: "int \<Rightarrow> string" where
  "str_int i = (if i < 0 then CHR ''-'' # str_nat (nat (- i)) else str_nat (nat i))"

text \<open>
  What \<^verbatim>\<open>subprocess.run(command, shell=True)\<close> did: it returned with an exit status, or
  raised \<^verbatim>\<open>FileNotFoundError\<close> (with its text), or raised another \<^verbatim>\<open>Exception\<close> (with its
  type name and its text).
\<close>

datatype run_result = Returned int | FileNotFound string | Raised string string

text \<open>
  What one turn of the loop of \<^verbatim>\<open>run_forever\<close> reads from outside the store:
  \<open>sig_stop\<close> is \<^verbatim>\<open>stop_event.is_set()\<close> at the loop test, \<open>t_pop\<close> and \<open>iso_pop\<close> are the clock
  in \<^verbatim>\<open>pop_pending_for_run\<close>, \<open>ran\<close> is the outcome of the command, and \<open>t_done\<close>,
  \<open>iso_done\<close>, \<open>iso_done2\<close> are the clock in the operation that records the outcome.
\<close>

record turn =
  sig_stop :: bool
  t_pop :: real
  iso_pop :: string
  ran :: run_result
  t_done :: real
  iso_done :: string
  iso_done2 :: string

text \<open>
  The failure block, which the source writes three times: \<open>n\<close> is \<^verbatim>\<open>attempts\<close> after
  \<^verbatim>\<open>attempts += 1\<close>. Each of its calls can raise (\<^verbatim>\<open>move_to_dlq\<close>, \<^verbatim>\<open>float\<close>,
  \<^verbatim>\<open>compute_delay\<close>, \<^verbatim>\<open>mark_failed_retry\<close>); the block has then changed nothing.
\<close>

definition retry_or_dlq ::
  "platform \<Rightarrow> turn \<Rightarrow> job \<Rightarrow> int \<Rightarrow> string \<Rightarrow> store \<Rightarrow> store \<times> error option" where
  "retry_or_dlq pl e jb n err s =
     (if n > max_retries jb
      then move_to_dlq (iso_done e) (iso_done2 e) jb err s
      else
        (case py_float pl (config_get ''backoff_base'' (Some ''2'') s) of
           Inl x \<Rightarrow> (s, Some x)
         | Inr base \<Rightarrow>
             (case compute_delay pl base n of
                Inl x \<Rightarrow> (s, Some x)
              | Inr delay \<Rightarrow>
                  mark_failed_retry pl (t_done e) (iso_done e) (id_col jb) n delay s)))"

text \<open>
  The body of the \<^verbatim>\<open>while\<close> loop. The result is the store and the exception that leaves
  the loop, if any. An exception raised in the \<^verbatim>\<open>try\<close> block (by the failure block) is
  caught by \<^verbatim>\<open>except Exception\<close>, which increments \<^verbatim>\<open>attempts\<close> once more and runs the
  failure block again; an exception raised in an \<^verbatim>\<open>except\<close> block leaves the loop.
\<close>

definition loop_body :: "platform \<Rightarrow> turn \<Rightarrow> store \<Rightarrow> store \<times> error option" where
  "loop_body pl e s =
     (case pop_pending_for_run pl (t_pop e) (iso_pop e) s of
        (s1, None) \<Rightarrow> (s1, None)
      | (s1, Some jb) \<Rightarrow>
          (case ran e of
             Returned rc \<Rightarrow>
               if rc = 0 then (mark_completed (iso_done e) (id_col jb) s1, None)
               else
                 (case retry_or_dlq pl e jb (attempts jb + 1) (''Exit '' @ str_int rc) s1 of
                    (s2, None) \<Rightarrow> (s2, None)
                  | (s2, Some x) \<Rightarrow>
                      retry_or_dlq pl e jb (attempts jb + 1 + 1)
                        (exc_name x @ '': '' @ exc_str x) s2)
           | FileNotFound m \<Rightarrow>
               retry_or_dlq pl e jb (attempts jb + 1) (''FileNotFoundError: '' @ m) s1
           | Raised nm m \<Rightarrow>
               retry_or_dlq pl e jb (attempts jb + 1) (nm @ '': '' @ m) s1))"

text \<open>
  The \<^verbatim>\<open>while\<close> loop over the turns given. It ends when a stop is seen (\<open>Stopped\<close>) or
  when an exception leaves it (\<open>Escaped\<close>); with no turn left it is still \<open>Running\<close>.
\<close>

datatype loop_exit = Stopped | Escaped error | Running

fun worker_loop :: "platform \<Rightarrow> turn list \<Rightarrow> store \<Rightarrow> store \<times> loop_exit" where
  "worker_loop pl [] s = (s, Running)"
| "worker_loop pl (e # es) s =
     (if sig_stop e \<or> is_stop_requested s then (s, Stopped)
      else
        (case loop_body pl e s of
           (s', Some x) \<Rightarrow> (s', Escaped x)
         | (s', None) \<Rightarrow> worker_loop pl es s'))"

text \<open>
  \<^verbatim>\<open>Worker.run_forever\<close>: the worker registers, loops, and deregisters in \<^verbatim>\<open>finally\<close>
  once the loop has ended.
\<close>

definition run_forever ::
  "platform \<Rightarrow> string \<Rightarrow> int \<Rightarrow> turn list \<Rightarrow> store \<Rightarrow> store \<times> loop_exit" where
  "run_forever pl reg_iso p es s =
     (case worker_loop pl es (register_worker reg_iso p ''default'' s) of
        (s', Running) \<Rightarrow> (s', Running)
      | (s', x) \<Rightarrow> (deregister_worker p s', x))"

subsection \<open>The retry budget\<close>

text \<open>
  The states in which a job is in normal circulation, and the invariant of the data model:
  every job in one of these states has \<open>attempts \<le> max_retries\<close>.
\<close>

definition in_circulation :: "job \<Rightarrow> bool" where
  "in_circulation r = (state r \<in> set [''pending'', ''processing'', ''completed'', ''failed''])"

definition within_retry_budget :: "store \<Rightarrow> bool" where
  "within_retry_budget s =
     list_all (\<lambda>r. if in_circulation r then attempts r \<le> max_retries r else True) (jobs s)"

text \<open>
  What the operations do keep: the primary key (no two rows share an id that is not
  \<^verbatim>\<open>NULL\<close>), and for every row, whatever its state, a non-negative \<open>max_retries\<close> and
  \<open>attempts \<le> max_retries\<close>.
\<close>

definition budget_ok :: "job \<Rightarrow> bool" where
  "budget_ok r = (0 \<le> max_retries r \<and> attempts r \<le> max_retries r)"

definition store_ok :: "store \<Rightarrow> bool" where
  "store_ok s =
     (distinct (filter (\<lambda>i. i \<noteq> None) (map id_col (jobs s))) \<and>
      list_all budget_ok (jobs s))"

subsection \<open>Floats\<close>


subsection \<open>Example data\<close>

text \<open>
  Rows and a store holding four of them, for the concrete instances below: \<open>row_a\<close> is
  pending with an \<open>eta\<close> in the past of time 10, \<open>row_b\<close> and \<open>row_c\<close> are pending with no
  \<open>eta\<close> (\<open>row_c\<close> is the older), \<open>row_d\<close> is parked in \<open>failed\<close>; \<open>row_z\<close> is pending with no
  retry left, and \<open>row_n\<close> is a pending row whose id is \<^verbatim>\<open>NULL\<close>.
\<close>

definition row_a :: job where
  "row_a = \<lparr>id_col = Some ''a'', command = ''true'', state = ''pending'', attempts = 0,
     max_retries = 3, eta = Some 5, created_at = ''2024-01-01T00:00:00Z'',
     updated_at = ''2024-01-01T00:00:00Z''\<rparr>"

definition row_b :: job where
  "row_b = \<lparr>id_col = Some ''b'', command = ''true'', state = ''pending'', attempts = 0,
     max_retries = 3, eta = None, created_at = ''2024-01-03T00:00:00Z'',
     updated_at = ''2024-01-03T00:00:00Z''\<rparr>"

definition row_c :: job where
  "row_c = \<lparr>id_col = Some ''c'', command = ''true'', state = ''pending'', attempts = 0,
     max_retries = 3, eta = None, created_at = ''2024-01-02T00:00:00Z'',
     updated_at = ''2024-01-02T00:00:00Z''\<rparr>"

definition row_d :: job where
  "row_d = \<lparr>id_col = Some ''d'', command = ''false'', state = ''failed'', attempts = 1,
     max_retries = 3, eta = Some 3, created_at = ''2023-12-31T00:00:00Z'',
     updated_at = ''2024-01-02T00:00:00Z''\<rparr>"

definition row_z :: job where
  "row_z = \<lparr>id_col = Some ''z'', command = ''exit 1'', state = ''pending'', attempts = 0,
     max_retries = 0, eta = None, created_at = ''2024-02-01T00:00:00Z'',
     updated_at = ''2024-02-01T00:00:00Z''\<rparr>"

definition row_n :: job where
  "row_n = \<lparr>id_col = None, command = ''true'', state = ''pending'', attempts = 0,
     max_retries = 3, eta = None, created_at = ''2024-02-01T00:00:00Z'',
     updated_at = ''2024-02-01T00:00:00Z''\<rparr>"

definition demo_store :: store where
  "demo_store = empty_store\<lparr>jobs := [row_a, row_b, row_c, row_d]\<rparr>"

text \<open>
  \<^verbatim>\<open>OverflowError(34, 'Numerical result out of range')\<close>, which \<^verbatim>\<open>x ** y\<close> raises when the
  power is beyond the largest float; its text is that of the pair.
\<close>

definition math_range_error :: error where
  "math_range_error =
     OverflowError (''(34, '' @ [CHR 0x27] @ ''Numerical result out of range'' @ [CHR 0x27] @ '')'')"

text \<open>
  A platform given by tables that agree with CPython and SQLite at the entries listed:
  the first of the tied rows; \<^verbatim>\<open>int\<close> on \<^verbatim>\<open>"3"\<close> and \<^verbatim>\<open>"5"\<close>; \<^verbatim>\<open>float\<close> on \<^verbatim>\<open>"2"\<close>; \<^verbatim>\<open>float\<close>
  on an integer up to \<open>2 ^ 53\<close> in size (exact); \<^verbatim>\<open>x ** 0.0\<close>, \<^verbatim>\<open>x ** 1.0\<close>, the powers of 2 up
  to 16, \<^verbatim>\<open>0.0 ** 3.0\<close>, \<^verbatim>\<open>(-2.0) ** 3.0\<close>, \<^verbatim>\<open>0.5 ** 2.0\<close> (all exact), \<^verbatim>\<open>3.0 ** 40.0\<close>
  (rounded: \<open>3 ^ 40\<close> is 12157665459056928801) and \<^verbatim>\<open>10.0 ** 400.0\<close> (out of range); and an
  addition that is exact. Off the tables it answers with an exception; no statement below
  uses it there.
\<close>

definition demo_platform :: platform where
  "demo_platform =
     \<lparr>sql_pick = (\<lambda>t rows. 0),
      py_int = (\<lambda>v. if v = Some ''3'' then Inr 3 else if v = Some ''5'' then Inr 5
         else if v = None then Inl (TypeError ''int() argument must not be None'')
         else Inl (ValueError ''invalid literal for int() with base 10'')),
      py_float = (\<lambda>v. if v = Some ''2'' then Inr 2
         else Inl (ValueError ''could not convert string to float'')),
      float_of_int = (\<lambda>n. if \<bar>n\<bar> \<le> 2 ^ 53 then Inr (of_int n)
         else Inl (OverflowError ''int too large to convert to float'')),
      float_pow = (\<lambda>x y.
         if y = 0 then Inr 1 else if y = 1 then Inr x
         else if x = 2 \<and> y = 2 then Inr 4 else if x = 2 \<and> y = 3 then Inr 8
         else if x = 2 \<and> y = 4 then Inr 16
         else if x = 0 \<and> y = 3 then Inr 0 else if x = - 2 \<and> y = 3 then Inr (- 8)
         else if x = 1 / 2 \<and> y = 2 then Inr (1 / 4)
         else if x = 3 \<and> y = 40 then Inr 12157665459056928768
         else Inl math_range_error),
      float_add = (\<lambda>x y. x + y)\<rparr>"

text \<open>
  A payload with the two required keys only, and a store whose configuration sets
  \<^verbatim>\<open>max_retries\<close> to \<^verbatim>\<open>"5"\<close>.
\<close>

definition demo_payload :: job_input where
  "demo_payload = \<lparr>in_id = Val ''j1'', in_command = Val ''exit 1'', in_state = Absent,
     in_attempts = Absent, in_max_retries = Absent, in_created_at = Absent,
     in_updated_at = Absent\<rparr>"

definition demo_config :: store where
  "demo_config = config_set ''max_retries'' ''5'' empty_store"

text \<open>A turn of the worker loop in which the command exits with status 1.\<close>

definition failing_turn :: turn where
  "failing_turn = \<lparr>sig_stop = False, t_pop = 100, iso_pop = ''2024-02-01T00:01:40Z'',
     ran = Returned 1, t_done = 101, iso_done = ''2024-02-01T00:01:41Z'',
     iso_done2 = ''2024-02-01T00:01:41Z''\<rparr>"

text \<open>A payload whose id is \<^verbatim>\<open>null\<close>: \<^verbatim>\<open>{"id": null, "command": "true"}\<close>.\<close>

definition null_id_payload :: job_input where
  "null_id_payload = \<lparr>in_id = Null, in_command = Val ''true'', in_state = Absent,
     in_attempts = Absent, in_max_retries = Absent, in_created_at = Absent,
     in_updated_at = Absent\<rparr>"

lemmas demo_defs = demo_store_def empty_store_def row_a_def row_b_def row_c_def row_d_def
  row_z_def row_n_def

section \<open>Properties\<close>

subsection \<open>The order of the claim query\<close>

text \<open>
  The sort key is a pair of a flag and a column value; the facts below are about such
  pairs over any linear order, and carry over to \<open>precedes\<close>.
\<close>

lemma key_asym:
  fixes x y :: "'a::linorder"
  shows "(if p = q then x < y else p) \<Longrightarrow> \<not> (if q = p then y < x else q)"
  by (cases "p = q") auto

lemma key_cotrans:
  fixes x y z :: "'a::linorder"
  shows "(if p = r then x < z else p) \<Longrightarrow>
         (if p = q then x < y else p) \<or> (if q = r then y < z else q)"
  by (cases p; cases q; cases r) auto


lemma precedes_asym: "precedes a b \<Longrightarrow> \<not> precedes b a"
  unfolding precedes_def by (rule key_asym)

lemma precedes_cotrans: "precedes x r \<Longrightarrow> precedes x m \<or> precedes m r"
  unfolding precedes_def by (rule key_cotrans)

lemma precedes_irrefl: "\<not> precedes r r"
  unfolding precedes_def by simp


text \<open>A list that is not empty has a row that no row precedes.\<close>

lemma minimal_exists:
  "rows \<noteq> [] \<Longrightarrow> \<exists>m\<in>set rows. \<forall>x\<in>set rows. \<not> precedes x m"
proof (induction rows)
  case Nil
  then show ?case by simp
next
  case (Cons r rs)
  show ?case
  proof (cases "rs = []")
    case True
    then show ?thesis by (simp add: precedes_irrefl)
  next
    case False
    from Cons.IH [OF False] obtain k where k: "k \<in> set rs" "\<forall>x\<in>set rs. \<not> precedes x k"
      by blast
    show ?thesis
    proof (cases "precedes r k")
      case True
      have "\<forall>x\<in>set rs. \<not> precedes x r"
      proof
        fix x assume x: "x \<in> set rs"
        show "\<not> precedes x r"
        proof
          assume "precedes x r"
          from precedes_cotrans [OF this, of k] k(2) x have "precedes k r" by blast
          with True show False by (blast dest: precedes_asym)
        qed
      qed
      then have "\<forall>x\<in>set (r # rs). \<not> precedes x r" by (simp add: precedes_irrefl)
      then show ?thesis by (intro bexI [of _ r]) simp_all
    next
      case False
      with k(2) have "\<forall>x\<in>set (r # rs). \<not> precedes x k" by simp
      with k(1) show ?thesis by (intro bexI [of _ k]) simp_all
    qed
  qed
qed

lemma minimal_rows_set:
  "set (minimal_rows rows) = {m \<in> set rows. \<forall>x\<in>set rows. \<not> precedes x m}"
  by (simp add: minimal_rows_def list_all_iff)

lemma minimal_rows_Nil: "minimal_rows rows = [] \<longleftrightarrow> rows = []"
proof
  assume e: "minimal_rows rows = []"
  show "rows = []"
  proof (rule ccontr)
    assume "rows \<noteq> []"
    from minimal_exists [OF this] have "set (minimal_rows rows) \<noteq> {}"
      unfolding minimal_rows_set by blast
    with e show False by simp
  qed
next
  assume "rows = []"
  then show "minimal_rows rows = []" by (simp add: minimal_rows_def)
qed

lemma first_row_None: "first_row pick rows = None \<longleftrightarrow> rows = []"
proof (cases "minimal_rows rows")
  case Nil
  then show ?thesis by (simp add: first_row_def minimal_rows_Nil [THEN iffD1])
next
  case (Cons m ms)
  then have "rows \<noteq> []" by (auto simp: minimal_rows_def)
  with Cons show ?thesis by (simp add: first_row_def)
qed

lemma first_row_Some:
  assumes "first_row pick rows = Some m"
  shows "m \<in> set rows \<and> (\<forall>x\<in>set rows. \<not> precedes x m)"
proof -
  have ne: "minimal_rows rows \<noteq> []"
    using assms by (auto simp: first_row_def)
  then have "m = minimal_rows rows ! (pick mod length (minimal_rows rows))"
    using assms by (cases "minimal_rows rows") (simp_all add: first_row_def)
  moreover have "pick mod length (minimal_rows rows) < length (minimal_rows rows)"
    using ne by simp
  ultimately have "m \<in> set (minimal_rows rows)" by (metis nth_mem)
  then show ?thesis unfolding minimal_rows_set by blast
qed

lemma pop_Some:
  assumes "pop_pending_for_run pl now t s = (s', Some row)"
  shows "first_row (sql_pick pl now (jobs s)) (filter (eligible now) (jobs s)) = Some row"
    and "s' = s\<lparr>jobs := update_jobs (id_col row)
                 (\<lambda>r. r\<lparr>state := ''processing'', updated_at := t\<rparr>) (jobs s)\<rparr>"
  using assms by (simp_all add: pop_pending_for_run_def split: option.splits)

lemma pop_None:
  assumes "pop_pending_for_run pl now t s = (s', None)"
  shows "filter (eligible now) (jobs s) = []" and "s' = s"
  using assms by (simp_all add: pop_pending_for_run_def first_row_None split: option.splits)

lemma pop_row:
  assumes "pop_pending_for_run pl now t s = (s', Some row)"
  shows "row \<in> set (jobs s)" and "eligible now row"
    and "\<forall>x\<in>set (jobs s). eligible now x \<longrightarrow> \<not> precedes x row"
  using first_row_Some [OF pop_Some(1) [OF assms]] by simp_all


lemma update_jobs_id:
  "(\<And>r. id_col (f r) = id_col r) \<Longrightarrow> map id_col (update_jobs i f rows) = map id_col rows"
  unfolding update_jobs_def by (induction rows) simp_all

lemma update_jobs_mem:
  "x \<in> set (update_jobs i f rows) \<Longrightarrow> id_col x = i \<Longrightarrow> i \<noteq> None \<Longrightarrow>
   (\<And>r. id_col (f r) = id_col r) \<Longrightarrow> \<exists>r\<in>set rows. id_col r = i \<and> x = f r"
  unfolding update_jobs_def sql_eq_def by (induction rows) (auto split: if_splits)




subsection \<open>Backoff policy\<close>









subsection \<open>Control flag\<close>

text \<open>
  Claim C9. \<^verbatim>\<open>request_stop\<close> and \<^verbatim>\<open>clear_stop\<close> are idempotent. From every store:
  \<^verbatim>\<open>clear_stop\<close> when no stop is requested leaves \<^verbatim>\<open>is_stop_requested()\<close> false (and the
  store as it was), \<^verbatim>\<open>request_stop\<close> twice leaves it true (and the store as after the first
  call). Neither operation has an error outcome.
\<close>

theorem stop_flag_idempotent:
  "(\<not> is_stop_requested s \<longrightarrow> \<not> is_stop_requested (clear_stop s) \<and> clear_stop s = s) \<and>
   is_stop_requested (request_stop (request_stop s)) \<and>
   request_stop (request_stop s) = request_stop s \<and>
   \<not> is_stop_requested (clear_stop (clear_stop s)) \<and>
   clear_stop (clear_stop s) = clear_stop s"
  by (simp add: is_stop_requested_def clear_stop_def request_stop_def fun_upd_idem)

theorem stop_flag_idempotent_witness:
  "\<not> is_stop_requested empty_store \<and> \<not> is_stop_requested (clear_stop empty_store) \<and>
   clear_stop empty_store = empty_store \<and>
   is_stop_requested (request_stop (request_stop empty_store))"
proof -
  have h: "\<not> is_stop_requested empty_store"
    by (simp add: is_stop_requested_def empty_store_def)
  from stop_flag_idempotent [of empty_store] h show ?thesis by blast
qed

subsection \<open>Retry from the dead-letter queue\<close>

text \<open>
  Claim C8. \<^verbatim>\<open>retry_from_dlq(job_id)\<close> returns \<^verbatim>\<open>False\<close> when the DLQ holds no record with
  that job id: an ordinary boolean result, no exception; the jobs table and the DLQ (the
  whole store) are then unchanged.
\<close>

theorem retry_from_dlq_not_found:
  "\<not> list_ex (\<lambda>d. job_id d = i) (dlq s) \<Longrightarrow> retry_from_dlq t i s = (s, False)"
  by (simp add: retry_from_dlq_def)

theorem retry_from_dlq_not_found_witness:
  "\<not> list_ex (\<lambda>d. job_id d = ''j1'') (dlq empty_store) \<and>
   retry_from_dlq ''2024-01-01T00:00:00Z'' ''j1'' empty_store = (empty_store, False)"
  using retry_from_dlq_not_found [of "''j1''" empty_store "''2024-01-01T00:00:00Z''"]
  by (simp add: empty_store_def)

subsection \<open>The claim operation\<close>










text \<open>
  Two claims one after the other never return the same job, if the id of the first is not
  \<^verbatim>\<open>NULL\<close>: the first leaves every row with the id in state \<open>processing\<close>, and the second
  takes pending rows only. (This is the serial case; that claims of different processes
  are serial is the work of \<^verbatim>\<open>BEGIN IMMEDIATE\<close> in SQLite.)
\<close>

lemma second_claim_differs:
  assumes "pop_pending_for_run pl now t s = (s1, Some a)"
    and "pop_pending_for_run pl now' t' s1 = (s2, Some b)"
    and "id_col a \<noteq> None"
  shows "id_col a \<noteq> id_col b"
proof
  assume eq: "id_col a = id_col b"
  let ?f = "\<lambda>r. r\<lparr>state := ''processing'', updated_at := t\<rparr>"
  have idf: "\<And>r. id_col (?f r) = id_col r" by simp
  from pop_row(1,2) [OF assms(2)] have b: "b \<in> set (jobs s1)" and p: "state b = ''pending''"
    by (simp_all add: eligible_def)
  from b have "b \<in> set (update_jobs (id_col a) ?f (jobs s))"
    by (simp add: pop_Some(2) [OF assms(1)])
  from update_jobs_mem [OF this eq [symmetric] assms(3) idf]
  have "state b = ''processing''" by (elim bexE conjE) simp
  with p show False by simp
qed

subsection \<open>Dead-letter queue round trip\<close>

lemma move_to_dlq_Some:
  "id_col r = Some i \<Longrightarrow>
   move_to_dlq t1 t2 r err s =
     (s\<lparr>dlq := dlq s @
          [\<lparr>dlq_id = Suc (dlq_seq s), job_id = i, payload = r, last_error = err,
            failed_at = t1\<rparr>],
        dlq_seq := Suc (dlq_seq s),
        jobs := update_jobs (Some i)
          (\<lambda>x. x\<lparr>state := ''dead'', updated_at := t2, eta := None\<rparr>) (jobs s)\<rparr>,
      None)"
  by (simp add: move_to_dlq_def)




subsection \<open>Enqueue\<close>

lemma sql_eq_Some: "sql_eq a (Some i) = (a = Some i)"
  by (auto simp: sql_eq_def)

lemma enqueue_row:
  assumes "in_id p = Val i" and "in_command p = Val c"
    and "get_int pl (in_max_retries p) 3 = Inr mr" and "get_int pl (in_attempts p) 0 = Inr att"
    and "fits_int64 mr" and "fits_int64 att"
  shows "enqueue pl t p s =
     (if list_ex (\<lambda>r. id_col r = Some i) (jobs s)
      then (s, Inl (IntegrityError ''UNIQUE constraint failed: jobs.id''))
      else
        (s\<lparr>jobs := jobs s @
            [\<lparr>id_col = Some i, command = c, state = or_else (in_state p) ''pending'',
              attempts = att, max_retries = mr, eta = None,
              created_at = or_else (in_created_at p) t,
              updated_at = or_else (in_updated_at p) (or_else (in_created_at p) t)\<rparr>]\<rparr>,
         Inr (Some i)))"
  using assms by (simp add: enqueue_def subscript_def Let_def sql_eq_Some)

lemma enqueue_cases:
  "(\<exists>x. enqueue pl t p s = (s, Inl x)) \<or>
   (\<exists>row jid. enqueue pl t p s = (s\<lparr>jobs := jobs s @ [row]\<rparr>, Inr jid))"
  by (simp add: enqueue_def Let_def split: sum.split option.split) blast

lemma enqueue_raise: "isl (snd (enqueue pl t p s)) \<Longrightarrow> fst (enqueue pl t p s) = s"
  using enqueue_cases [of pl t p s] by (elim disjE exE) simp_all

lemma enqueue_duplicate:
  assumes "in_id p = Val i" and "list_ex (\<lambda>r. id_col r = Some i) (jobs s)"
  shows "isl (snd (enqueue pl t p s))"
  using assms
  by (simp add: enqueue_def subscript_def Let_def sql_eq_Some split: sum.split option.split)

lemma cmd_enqueue_cases:
  "(\<exists>x. cmd_enqueue pl t p s = (s, Inl x)) \<or>
   (\<exists>q. in_id q = in_id p \<and> cmd_enqueue pl t p s = enqueue pl t q s)"
proof (cases "in_max_retries p = Absent")
  case True
  show ?thesis
  proof (cases "py_int pl (config_get ''max_retries'' (Some ''3'') s)")
    case (Inl y)
    with True have "cmd_enqueue pl t p s = (s, Inl y)" by (simp add: cmd_enqueue_def)
    then show ?thesis by blast
  next
    case (Inr m)
    let ?q = "if in_state p = Absent
        then p\<lparr>in_max_retries := Val m, in_state := Val ''pending''\<rparr>
        else p\<lparr>in_max_retries := Val m\<rparr>"
    from True Inr have "cmd_enqueue pl t p s = enqueue pl t ?q s"
      by (simp add: cmd_enqueue_def)
    moreover have "in_id ?q = in_id p" by simp
    ultimately show ?thesis by blast
  qed
next
  case False
  let ?q = "if in_state p = Absent then p\<lparr>in_state := Val ''pending''\<rparr> else p"
  from False have "cmd_enqueue pl t p s = enqueue pl t ?q s"
    by (simp add: cmd_enqueue_def)
  moreover have "in_id ?q = in_id p" by simp
  ultimately show ?thesis by blast
qed

lemma cmd_enqueue_raise:
  "isl (snd (cmd_enqueue pl t p s)) \<Longrightarrow> fst (cmd_enqueue pl t p s) = s"
  using cmd_enqueue_cases [of pl t p s] by (elim disjE exE conjE) (simp_all add: enqueue_raise)

lemma cmd_enqueue_duplicate:
  assumes "in_id p = Val i" and "list_ex (\<lambda>r. id_col r = Some i) (jobs s)"
  shows "isl (snd (cmd_enqueue pl t p s))"
  using cmd_enqueue_cases [of pl t p s] assms
  by (elim disjE exE conjE) (simp_all add: enqueue_duplicate)


lemma cmd_enqueue_row:
  assumes "in_id p = Val i" and "in_command p = Val c"
    and "in_max_retries p = Absent \<longrightarrow>
           py_int pl (config_get ''max_retries'' (Some ''3'') s) = Inr m"
    and "get_int pl (in_max_retries p) m = Inr mr" and "get_int pl (in_attempts p) 0 = Inr att"
    and "fits_int64 mr" and "fits_int64 att"
    and "\<not> list_ex (\<lambda>r. id_col r = Some i) (jobs s)"
  shows "cmd_enqueue pl t p s =
        (s\<lparr>jobs := jobs s @
            [\<lparr>id_col = Some i, command = c, state = or_else (in_state p) ''pending'',
              attempts = att, max_retries = mr, eta = None,
              created_at = or_else (in_created_at p) t,
              updated_at = or_else (in_updated_at p) (or_else (in_created_at p) t)\<rparr>]\<rparr>,
         Inr (Some i))"
proof -
  obtain q where cq: "cmd_enqueue pl t p s = enqueue pl t q s"
    and q: "in_id q = Val i" "in_command q = Val c" "in_attempts q = in_attempts p"
      "in_created_at q = in_created_at p" "in_updated_at q = in_updated_at p"
      "or_else (in_state q) ''pending'' = or_else (in_state p) ''pending''"
    and qm: "get_int pl (in_max_retries q) 3 = Inr mr"
  proof (cases "in_max_retries p = Absent")
    case True
    let ?q = "if in_state p = Absent
        then p\<lparr>in_max_retries := Val m, in_state := Val ''pending''\<rparr>
        else p\<lparr>in_max_retries := Val m\<rparr>"
    from True assms(3) have pm: "py_int pl (config_get ''max_retries'' (Some ''3'') s) = Inr m"
      by simp
    from True assms(4) have mr: "mr = m" by (simp add: get_int_def)
    from True pm have "cmd_enqueue pl t p s = enqueue pl t ?q s"
      by (simp add: cmd_enqueue_def)
    moreover have "in_id ?q = Val i" "in_command ?q = Val c" "in_attempts ?q = in_attempts p"
      "in_created_at ?q = in_created_at p" "in_updated_at ?q = in_updated_at p"
      "or_else (in_state ?q) ''pending'' = or_else (in_state p) ''pending''"
      "get_int pl (in_max_retries ?q) 3 = Inr mr"
      by (simp_all add: assms(1,2) mr or_else_def get_int_def)
    ultimately show ?thesis by (rule that)
  next
    case False
    let ?q = "if in_state p = Absent then p\<lparr>in_state := Val ''pending''\<rparr> else p"
    from False assms(4) have g: "get_int pl (in_max_retries p) 3 = Inr mr"
      by (cases "in_max_retries p") (simp_all add: get_int_def)
    from False have "cmd_enqueue pl t p s = enqueue pl t ?q s"
      by (simp add: cmd_enqueue_def)
    moreover have "in_id ?q = Val i" "in_command ?q = Val c" "in_attempts ?q = in_attempts p"
      "in_created_at ?q = in_created_at p" "in_updated_at ?q = in_updated_at p"
      "or_else (in_state ?q) ''pending'' = or_else (in_state p) ''pending''"
      "get_int pl (in_max_retries ?q) 3 = Inr mr"
      by (simp_all add: assms(1,2) g or_else_def)
    ultimately show ?thesis by (rule that)
  qed
  from assms(5) have qa: "get_int pl (in_attempts q) 0 = Inr att" by (simp only: q(3))
  show ?thesis
    unfolding cq enqueue_row [OF q(1) q(2) qm qa assms(6) assms(7)] q(4,5,6)
    using assms(8) by simp
qed

text \<open>
  Claim C4, as the specification states it, does not hold.
  \<^item> \<open>updated_at\<close> defaults to the \<open>created_at\<close> of the job, not to the current time: a
    payload that gives \<open>created_at\<close> and no \<open>updated_at\<close> is stored with both equal to the
    given one.
  \<^item> \<^verbatim>\<open>Storage.enqueue\<close> takes 3 for an absent \<open>max_retries\<close>, whatever the configuration
    says (here 5); only \<^verbatim>\<open>cmd_enqueue\<close> reads the configuration.
  \<^item> A payload with the required fields and \<open>max_retries = 2 ^ 63\<close> inserts nothing: the
    \<^verbatim>\<open>INSERT\<close> raises \<^verbatim>\<open>OverflowError\<close>.
  \<^item> A second job whose id is \<^verbatim>\<open>null\<close> is inserted beside the first, with no error.
\<close>

theorem enqueue_defaults_differ:
  "enqueue demo_platform ''2024-02-01T00:00:00Z''
     (demo_payload\<lparr>in_created_at := Val ''2020-01-01T00:00:00Z''\<rparr>) empty_store =
     (empty_store\<lparr>jobs :=
         [\<lparr>id_col = Some ''j1'', command = ''exit 1'', state = ''pending'', attempts = 0,
           max_retries = 3, eta = None, created_at = ''2020-01-01T00:00:00Z'',
           updated_at = ''2020-01-01T00:00:00Z''\<rparr>]\<rparr>,
      Inr (Some ''j1'')) \<and>
   cmd_enqueue demo_platform ''2024-02-01T00:00:00Z''
     (demo_payload\<lparr>in_created_at := Val ''2020-01-01T00:00:00Z''\<rparr>) empty_store =
     (empty_store\<lparr>jobs :=
         [\<lparr>id_col = Some ''j1'', command = ''exit 1'', state = ''pending'', attempts = 0,
           max_retries = 3, eta = None, created_at = ''2020-01-01T00:00:00Z'',
           updated_at = ''2020-01-01T00:00:00Z''\<rparr>]\<rparr>,
      Inr (Some ''j1'')) \<and>
   config_get ''max_retries'' (Some ''3'') demo_config = Some ''5'' \<and>
   enqueue demo_platform ''2024-02-01T00:00:00Z'' demo_payload demo_config =
     (demo_config\<lparr>jobs :=
         [\<lparr>id_col = Some ''j1'', command = ''exit 1'', state = ''pending'', attempts = 0,
           max_retries = 3, eta = None, created_at = ''2024-02-01T00:00:00Z'',
           updated_at = ''2024-02-01T00:00:00Z''\<rparr>]\<rparr>,
      Inr (Some ''j1'')) \<and>
   cmd_enqueue demo_platform ''2024-02-01T00:00:00Z''
     (demo_payload\<lparr>in_max_retries := Val (2 ^ 63)\<rparr>) empty_store =
     (empty_store,
      Inl (OverflowError ''Python int too large to convert to SQLite INTEGER'')) \<and>
   cmd_enqueue demo_platform ''2024-02-01T00:00:01Z'' null_id_payload
     (empty_store\<lparr>jobs := [row_n]\<rparr>) =
     (empty_store\<lparr>jobs := [row_n, row_n\<lparr>created_at := ''2024-02-01T00:00:01Z'',
         updated_at := ''2024-02-01T00:00:01Z''\<rparr>]\<rparr>,
      Inr None)"
proof -
  have a: "enqueue demo_platform ''2024-02-01T00:00:00Z''
     (demo_payload\<lparr>in_created_at := Val ''2020-01-01T00:00:00Z''\<rparr>) empty_store =
     (empty_store\<lparr>jobs :=
         [\<lparr>id_col = Some ''j1'', command = ''exit 1'', state = ''pending'', attempts = 0,
           max_retries = 3, eta = None, created_at = ''2020-01-01T00:00:00Z'',
           updated_at = ''2020-01-01T00:00:00Z''\<rparr>]\<rparr>,
      Inr (Some ''j1''))"
    by (simp add: enqueue_def subscript_def or_else_def get_int_def fits_int64_def
        sql_eq_def demo_payload_def empty_store_def Let_def)
  have b: "cmd_enqueue demo_platform ''2024-02-01T00:00:00Z''
     (demo_payload\<lparr>in_created_at := Val ''2020-01-01T00:00:00Z''\<rparr>) empty_store =
     (empty_store\<lparr>jobs :=
         [\<lparr>id_col = Some ''j1'', command = ''exit 1'', state = ''pending'', attempts = 0,
           max_retries = 3, eta = None, created_at = ''2020-01-01T00:00:00Z'',
           updated_at = ''2020-01-01T00:00:00Z''\<rparr>]\<rparr>,
      Inr (Some ''j1''))"
    by (simp add: cmd_enqueue_def enqueue_def subscript_def or_else_def get_int_def
        fits_int64_def config_get_def sql_eq_def demo_payload_def demo_platform_def
        empty_store_def Let_def)
  have c: "config_get ''max_retries'' (Some ''3'') demo_config = Some ''5''"
    by (simp add: config_get_def demo_config_def config_set_def empty_store_def)
  have d: "enqueue demo_platform ''2024-02-01T00:00:00Z'' demo_payload demo_config =
     (demo_config\<lparr>jobs :=
         [\<lparr>id_col = Some ''j1'', command = ''exit 1'', state = ''pending'', attempts = 0,
           max_retries = 3, eta = None, created_at = ''2024-02-01T00:00:00Z'',
           updated_at = ''2024-02-01T00:00:00Z''\<rparr>]\<rparr>,
      Inr (Some ''j1''))"
    by (simp add: enqueue_def subscript_def or_else_def get_int_def fits_int64_def
        sql_eq_def demo_payload_def demo_config_def config_set_def empty_store_def Let_def)
  have e: "cmd_enqueue demo_platform ''2024-02-01T00:00:00Z''
     (demo_payload\<lparr>in_max_retries := Val (2 ^ 63)\<rparr>) empty_store =
     (empty_store,
      Inl (OverflowError ''Python int too large to convert to SQLite INTEGER''))"
    by (simp add: cmd_enqueue_def enqueue_def subscript_def or_else_def get_int_def
        fits_int64_def demo_payload_def Let_def)
  have f: "cmd_enqueue demo_platform ''2024-02-01T00:00:01Z'' null_id_payload
     (empty_store\<lparr>jobs := [row_n]\<rparr>) =
     (empty_store\<lparr>jobs := [row_n, row_n\<lparr>created_at := ''2024-02-01T00:00:01Z'',
         updated_at := ''2024-02-01T00:00:01Z''\<rparr>]\<rparr>,
      Inr None)"
    by (simp add: cmd_enqueue_def enqueue_def subscript_def or_else_def get_int_def
        fits_int64_def config_get_def sql_eq_def null_id_payload_def demo_platform_def
        empty_store_def row_n_def Let_def)
  from a b c d e f show ?thesis by (intro conjI)
qed

text \<open>
  Claim C4, amended. For a payload whose \<open>id\<close> and \<open>command\<close> are texts, whose \<open>attempts\<close>
  and \<open>max_retries\<close> (given or defaulted) fit a 64-bit integer, and whose id is not in the
  table, \<^verbatim>\<open>Storage.enqueue\<close> appends one row and returns the id. In the row, \<open>state\<close> is
  \<open>pending\<close> when the payload has none (the key absent, \<^verbatim>\<open>null\<close> or empty), \<open>attempts\<close> is 0
  and \<open>max_retries\<close> is 3 when the key is absent, \<open>created_at\<close> is the current time when
  the payload has none, \<open>updated_at\<close> is the \<open>created_at\<close> of the row when the payload has
  none, and \<open>eta\<close> is \<^verbatim>\<open>NULL\<close>. \<^verbatim>\<open>cmd_enqueue\<close> does the same, with the value of the
  configuration key \<^verbatim>\<open>max_retries\<close> (\<^verbatim>\<open>"3"\<close> when the key is not set) in place of 3: a
  payload with the two required keys only gets \<open>state\<close> \<open>pending\<close>, \<open>attempts\<close> 0, that
  \<open>max_retries\<close>, both times the current time and no \<open>eta\<close>. When a job with the id
  exists, both fail and leave the store unchanged, \<^verbatim>\<open>Storage.enqueue\<close> with the integrity
  error of the primary key if the two integers are in range; and whenever one of the two
  raises, the store is unchanged.
\<close>

theorem enqueue_fills_defaults:
  assumes "in_id p = Val i" and "in_command p = Val c"
  shows
    "(\<not> list_ex (\<lambda>r. id_col r = Some i) (jobs s) \<and>
      get_int pl (in_max_retries p) 3 = Inr mr \<and> get_int pl (in_attempts p) 0 = Inr att \<and>
      fits_int64 mr \<and> fits_int64 att \<longrightarrow>
        enqueue pl t p s =
          (s\<lparr>jobs := jobs s @
              [\<lparr>id_col = Some i, command = c, state = or_else (in_state p) ''pending'',
                attempts = att, max_retries = mr, eta = None,
                created_at = or_else (in_created_at p) t,
                updated_at = or_else (in_updated_at p) (or_else (in_created_at p) t)\<rparr>]\<rparr>,
           Inr (Some i))) \<and>
     or_else Absent d = d \<and> or_else Null d = d \<and> or_else (Val []) d = d \<and>
     (w \<noteq> [] \<longrightarrow> or_else (Val w) d = w) \<and>
     get_int pl Absent k = Inr k \<and> get_int pl (Val k') k = Inr k' \<and>
     (\<not> list_ex (\<lambda>r. id_col r = Some i) (jobs s) \<and>
      in_state p = Absent \<and> in_attempts p = Absent \<and> in_max_retries p = Absent \<and>
      in_created_at p = Absent \<and> in_updated_at p = Absent \<and>
      py_int pl (config_get ''max_retries'' (Some ''3'') s) = Inr m \<and> fits_int64 m \<longrightarrow>
        cmd_enqueue pl t p s =
          (s\<lparr>jobs := jobs s @
              [\<lparr>id_col = Some i, command = c, state = ''pending'', attempts = 0,
                max_retries = m, eta = None, created_at = t, updated_at = t\<rparr>]\<rparr>,
           Inr (Some i))) \<and>
     (config s ''max_retries'' = None \<longrightarrow>
        config_get ''max_retries'' (Some ''3'') s = Some ''3'') \<and>
     (config s ''max_retries'' = Some v \<longrightarrow>
        config_get ''max_retries'' (Some ''3'') s = Some v) \<and>
     (\<not> list_ex (\<lambda>r. id_col r = Some i) (jobs s) \<and>
      in_state p = Absent \<and> in_attempts p = Absent \<and> in_max_retries p = Absent \<and>
      in_created_at p = Absent \<and> in_updated_at p = Absent \<longrightarrow>
        enqueue pl t p s =
          (s\<lparr>jobs := jobs s @
              [\<lparr>id_col = Some i, command = c, state = ''pending'', attempts = 0,
                max_retries = 3, eta = None, created_at = t, updated_at = t\<rparr>]\<rparr>,
           Inr (Some i))) \<and>
     (list_ex (\<lambda>r. id_col r = Some i) (jobs s) \<longrightarrow>
        fst (enqueue pl t p s) = s \<and> isl (snd (enqueue pl t p s)) \<and>
        fst (cmd_enqueue pl t p s) = s \<and> isl (snd (cmd_enqueue pl t p s))) \<and>
     (list_ex (\<lambda>r. id_col r = Some i) (jobs s) \<and>
      get_int pl (in_max_retries p) 3 = Inr mr \<and> get_int pl (in_attempts p) 0 = Inr att \<and>
      fits_int64 mr \<and> fits_int64 att \<longrightarrow>
        enqueue pl t p s = (s, Inl (IntegrityError ''UNIQUE constraint failed: jobs.id''))) \<and>
     (isl (snd (enqueue pl t p s)) \<longrightarrow> fst (enqueue pl t p s) = s) \<and>
     (isl (snd (cmd_enqueue pl t p s)) \<longrightarrow> fst (cmd_enqueue pl t p s) = s) \<and>
     (\<not> list_ex (\<lambda>r. id_col r = Some i) (jobs s) \<and>
      (in_max_retries p = Absent \<longrightarrow>
         py_int pl (config_get ''max_retries'' (Some ''3'') s) = Inr m) \<and>
      get_int pl (in_max_retries p) m = Inr mr \<and> get_int pl (in_attempts p) 0 = Inr att \<and>
      fits_int64 mr \<and> fits_int64 att \<longrightarrow>
        cmd_enqueue pl t p s =
          (s\<lparr>jobs := jobs s @
              [\<lparr>id_col = Some i, command = c, state = or_else (in_state p) ''pending'',
                attempts = att, max_retries = mr, eta = None,
                created_at = or_else (in_created_at p) t,
                updated_at = or_else (in_updated_at p) (or_else (in_created_at p) t)\<rparr>]\<rparr>,
           Inr (Some i)))"
proof -
  have c1: "\<not> list_ex (\<lambda>r. id_col r = Some i) (jobs s) \<and>
      get_int pl (in_max_retries p) 3 = Inr mr \<and> get_int pl (in_attempts p) 0 = Inr att \<and>
      fits_int64 mr \<and> fits_int64 att \<longrightarrow>
        enqueue pl t p s =
          (s\<lparr>jobs := jobs s @
              [\<lparr>id_col = Some i, command = c, state = or_else (in_state p) ''pending'',
                attempts = att, max_retries = mr, eta = None,
                created_at = or_else (in_created_at p) t,
                updated_at = or_else (in_updated_at p) (or_else (in_created_at p) t)\<rparr>]\<rparr>,
           Inr (Some i))"
  proof
    assume h: "\<not> list_ex (\<lambda>r. id_col r = Some i) (jobs s) \<and>
      get_int pl (in_max_retries p) 3 = Inr mr \<and> get_int pl (in_attempts p) 0 = Inr att \<and>
      fits_int64 mr \<and> fits_int64 att"
    from h have m: "get_int pl (in_max_retries p) 3 = Inr mr"
      and a: "get_int pl (in_attempts p) 0 = Inr att"
      and fm: "fits_int64 mr" and fa: "fits_int64 att"
      and fresh: "\<not> list_ex (\<lambda>r. id_col r = Some i) (jobs s)"
      by simp_all
    show "enqueue pl t p s =
          (s\<lparr>jobs := jobs s @
              [\<lparr>id_col = Some i, command = c, state = or_else (in_state p) ''pending'',
                attempts = att, max_retries = mr, eta = None,
                created_at = or_else (in_created_at p) t,
                updated_at = or_else (in_updated_at p) (or_else (in_created_at p) t)\<rparr>]\<rparr>,
           Inr (Some i))"
      unfolding enqueue_row [OF assms m a fm fa] using fresh by simp
  qed
  have c2: "or_else Absent d = d" "or_else Null d = d" "or_else (Val []) d = d"
    "w \<noteq> [] \<longrightarrow> or_else (Val w) d = w"
    "get_int pl Absent k = Inr k" "get_int pl (Val k') k = Inr k'"
    by (simp_all add: or_else_def get_int_def)
  have c3: "\<not> list_ex (\<lambda>r. id_col r = Some i) (jobs s) \<and>
      in_state p = Absent \<and> in_attempts p = Absent \<and> in_max_retries p = Absent \<and>
      in_created_at p = Absent \<and> in_updated_at p = Absent \<and>
      py_int pl (config_get ''max_retries'' (Some ''3'') s) = Inr m \<and> fits_int64 m \<longrightarrow>
        cmd_enqueue pl t p s =
          (s\<lparr>jobs := jobs s @
              [\<lparr>id_col = Some i, command = c, state = ''pending'', attempts = 0,
                max_retries = m, eta = None, created_at = t, updated_at = t\<rparr>]\<rparr>,
           Inr (Some i))"
  proof
    assume h: "\<not> list_ex (\<lambda>r. id_col r = Some i) (jobs s) \<and>
      in_state p = Absent \<and> in_attempts p = Absent \<and> in_max_retries p = Absent \<and>
      in_created_at p = Absent \<and> in_updated_at p = Absent \<and>
      py_int pl (config_get ''max_retries'' (Some ''3'') s) = Inr m \<and> fits_int64 m"
    let ?q = "p\<lparr>in_max_retries := Val m, in_state := Val ''pending''\<rparr>"
    from h have "cmd_enqueue pl t p s = enqueue pl t ?q s"
      by (simp add: cmd_enqueue_def)
    also have "\<dots> = (s\<lparr>jobs := jobs s @
              [\<lparr>id_col = Some i, command = c, state = ''pending'', attempts = 0,
                max_retries = m, eta = None, created_at = t, updated_at = t\<rparr>]\<rparr>,
           Inr (Some i))"
      using h assms
      by (simp add: enqueue_row [of ?q i c pl m 0 t s] or_else_def get_int_def fits_int64_def)
    finally show "cmd_enqueue pl t p s =
          (s\<lparr>jobs := jobs s @
              [\<lparr>id_col = Some i, command = c, state = ''pending'', attempts = 0,
                max_retries = m, eta = None, created_at = t, updated_at = t\<rparr>]\<rparr>,
           Inr (Some i))" .
  qed
  have c4: "config s ''max_retries'' = None \<longrightarrow>
        config_get ''max_retries'' (Some ''3'') s = Some ''3''"
    "config s ''max_retries'' = Some v \<longrightarrow>
        config_get ''max_retries'' (Some ''3'') s = Some v"
    by (simp_all add: config_get_def)
  have c5: "\<not> list_ex (\<lambda>r. id_col r = Some i) (jobs s) \<and>
      in_state p = Absent \<and> in_attempts p = Absent \<and> in_max_retries p = Absent \<and>
      in_created_at p = Absent \<and> in_updated_at p = Absent \<longrightarrow>
        enqueue pl t p s =
          (s\<lparr>jobs := jobs s @
              [\<lparr>id_col = Some i, command = c, state = ''pending'', attempts = 0,
                max_retries = 3, eta = None, created_at = t, updated_at = t\<rparr>]\<rparr>,
           Inr (Some i))"
    using assms
    by (simp add: enqueue_row [of p i c pl 3 0 t s] or_else_def get_int_def fits_int64_def)
  have c6: "list_ex (\<lambda>r. id_col r = Some i) (jobs s) \<longrightarrow>
        fst (enqueue pl t p s) = s \<and> isl (snd (enqueue pl t p s)) \<and>
        fst (cmd_enqueue pl t p s) = s \<and> isl (snd (cmd_enqueue pl t p s))"
  proof (intro impI conjI)
    assume dup: "list_ex (\<lambda>r. id_col r = Some i) (jobs s)"
    show e: "isl (snd (enqueue pl t p s))" by (rule enqueue_duplicate [OF assms(1) dup])
    show "fst (enqueue pl t p s) = s" by (rule enqueue_raise [OF e])
    show f: "isl (snd (cmd_enqueue pl t p s))" by (rule cmd_enqueue_duplicate [OF assms(1) dup])
    show "fst (cmd_enqueue pl t p s) = s" by (rule cmd_enqueue_raise [OF f])
  qed
  have c7: "list_ex (\<lambda>r. id_col r = Some i) (jobs s) \<and>
      get_int pl (in_max_retries p) 3 = Inr mr \<and> get_int pl (in_attempts p) 0 = Inr att \<and>
      fits_int64 mr \<and> fits_int64 att \<longrightarrow>
        enqueue pl t p s = (s, Inl (IntegrityError ''UNIQUE constraint failed: jobs.id''))"
  proof
    assume h: "list_ex (\<lambda>r. id_col r = Some i) (jobs s) \<and>
      get_int pl (in_max_retries p) 3 = Inr mr \<and> get_int pl (in_attempts p) 0 = Inr att \<and>
      fits_int64 mr \<and> fits_int64 att"
    from h have m: "get_int pl (in_max_retries p) 3 = Inr mr"
      and a: "get_int pl (in_attempts p) 0 = Inr att"
      and fm: "fits_int64 mr" and fa: "fits_int64 att"
      and dup: "list_ex (\<lambda>r. id_col r = Some i) (jobs s)"
      by simp_all
    show "enqueue pl t p s = (s, Inl (IntegrityError ''UNIQUE constraint failed: jobs.id''))"
      unfolding enqueue_row [OF assms m a fm fa] using dup by simp
  qed
  have c8: "isl (snd (enqueue pl t p s)) \<longrightarrow> fst (enqueue pl t p s) = s"
    "isl (snd (cmd_enqueue pl t p s)) \<longrightarrow> fst (cmd_enqueue pl t p s) = s"
    by (simp_all add: enqueue_raise cmd_enqueue_raise)
  have c9: "\<not> list_ex (\<lambda>r. id_col r = Some i) (jobs s) \<and>
      (in_max_retries p = Absent \<longrightarrow>
         py_int pl (config_get ''max_retries'' (Some ''3'') s) = Inr m) \<and>
      get_int pl (in_max_retries p) m = Inr mr \<and> get_int pl (in_attempts p) 0 = Inr att \<and>
      fits_int64 mr \<and> fits_int64 att \<longrightarrow>
        cmd_enqueue pl t p s =
          (s\<lparr>jobs := jobs s @
              [\<lparr>id_col = Some i, command = c, state = or_else (in_state p) ''pending'',
                attempts = att, max_retries = mr, eta = None,
                created_at = or_else (in_created_at p) t,
                updated_at = or_else (in_updated_at p) (or_else (in_created_at p) t)\<rparr>]\<rparr>,
           Inr (Some i))"
  proof
    assume h: "\<not> list_ex (\<lambda>r. id_col r = Some i) (jobs s) \<and>
      (in_max_retries p = Absent \<longrightarrow>
         py_int pl (config_get ''max_retries'' (Some ''3'') s) = Inr m) \<and>
      get_int pl (in_max_retries p) m = Inr mr \<and> get_int pl (in_attempts p) 0 = Inr att \<and>
      fits_int64 mr \<and> fits_int64 att"
    show "cmd_enqueue pl t p s =
          (s\<lparr>jobs := jobs s @
              [\<lparr>id_col = Some i, command = c, state = or_else (in_state p) ''pending'',
                attempts = att, max_retries = mr, eta = None,
                created_at = or_else (in_created_at p) t,
                updated_at = or_else (in_updated_at p) (or_else (in_created_at p) t)\<rparr>]\<rparr>,
           Inr (Some i))"
      by (rule cmd_enqueue_row [OF assms h [THEN conjunct2, THEN conjunct1]
            h [THEN conjunct2, THEN conjunct2, THEN conjunct1]
            h [THEN conjunct2, THEN conjunct2, THEN conjunct2, THEN conjunct1]
            h [THEN conjunct2, THEN conjunct2, THEN conjunct2, THEN conjunct2, THEN conjunct1]
            h [THEN conjunct2, THEN conjunct2, THEN conjunct2, THEN conjunct2, THEN conjunct2]
            h [THEN conjunct1]])
  qed
  from c1 c2 c3 c4 c5 c6 c7 c8 c9 show ?thesis by (intro conjI)
qed


theorem enqueue_fills_defaults_witness:
  "in_id demo_payload = Val ''j1'' \<and> in_command demo_payload = Val ''exit 1'' \<and>
   cmd_enqueue demo_platform ''2024-02-01T00:00:00Z'' demo_payload demo_config =
     (demo_config\<lparr>jobs :=
         [\<lparr>id_col = Some ''j1'', command = ''exit 1'', state = ''pending'', attempts = 0,
           max_retries = 5, eta = None, created_at = ''2024-02-01T00:00:00Z'',
           updated_at = ''2024-02-01T00:00:00Z''\<rparr>]\<rparr>,
      Inr (Some ''j1'')) \<and>
   enqueue demo_platform ''2024-02-02T00:00:00Z'' demo_payload
     (demo_config\<lparr>jobs :=
         [\<lparr>id_col = Some ''j1'', command = ''exit 1'', state = ''pending'', attempts = 0,
           max_retries = 5, eta = None, created_at = ''2024-02-01T00:00:00Z'',
           updated_at = ''2024-02-01T00:00:00Z''\<rparr>]\<rparr>) =
     (demo_config\<lparr>jobs :=
         [\<lparr>id_col = Some ''j1'', command = ''exit 1'', state = ''pending'', attempts = 0,
           max_retries = 5, eta = None, created_at = ''2024-02-01T00:00:00Z'',
           updated_at = ''2024-02-01T00:00:00Z''\<rparr>]\<rparr>,
      Inl (IntegrityError ''UNIQUE constraint failed: jobs.id'')) \<and>
   enqueue demo_platform ''2024-02-01T00:00:00Z''
     (demo_payload\<lparr>in_created_at := Val ''2020-01-01T00:00:00Z'', in_attempts := Val 1,
        in_max_retries := Val 4, in_state := Null\<rparr>) empty_store =
     (empty_store\<lparr>jobs :=
         [\<lparr>id_col = Some ''j1'', command = ''exit 1'', state = ''pending'', attempts = 1,
           max_retries = 4, eta = None, created_at = ''2020-01-01T00:00:00Z'',
           updated_at = ''2020-01-01T00:00:00Z''\<rparr>]\<rparr>,
      Inr (Some ''j1'')) \<and>
   cmd_enqueue demo_platform ''2024-02-01T00:00:00Z''
     (demo_payload\<lparr>in_created_at := Val ''2020-01-01T00:00:00Z''\<rparr>) demo_config =
     (demo_config\<lparr>jobs :=
         [\<lparr>id_col = Some ''j1'', command = ''exit 1'', state = ''pending'', attempts = 0,
           max_retries = 5, eta = None, created_at = ''2020-01-01T00:00:00Z'',
           updated_at = ''2020-01-01T00:00:00Z''\<rparr>]\<rparr>,
      Inr (Some ''j1''))"
proof -
  let ?s1 = "demo_config\<lparr>jobs :=
         [\<lparr>id_col = Some ''j1'', command = ''exit 1'', state = ''pending'', attempts = 0,
           max_retries = 5, eta = None, created_at = ''2024-02-01T00:00:00Z'',
           updated_at = ''2024-02-01T00:00:00Z''\<rparr>]\<rparr>"
  let ?q = "demo_payload\<lparr>in_created_at := Val ''2020-01-01T00:00:00Z'', in_attempts := Val 1,
        in_max_retries := Val 4, in_state := Null\<rparr>"
  have i: "in_id demo_payload = Val ''j1''" and c: "in_command demo_payload = Val ''exit 1''"
    by (simp_all add: demo_payload_def)
  have iq: "in_id ?q = Val ''j1''" and cq: "in_command ?q = Val ''exit 1''"
    by (simp_all add: demo_payload_def)
  have j: "jobs demo_config = []"
    by (simp add: demo_config_def config_set_def empty_store_def)
  have h: "\<not> list_ex (\<lambda>r. id_col r = Some ''j1'') (jobs demo_config) \<and>
      in_state demo_payload = Absent \<and> in_attempts demo_payload = Absent \<and>
      in_max_retries demo_payload = Absent \<and>
      in_created_at demo_payload = Absent \<and> in_updated_at demo_payload = Absent \<and>
      py_int demo_platform (config_get ''max_retries'' (Some ''3'') demo_config) = Inr 5 \<and>
      fits_int64 5"
    by (simp add: demo_payload_def demo_platform_def demo_config_def config_get_def
        config_set_def empty_store_def fits_int64_def)
  have d: "list_ex (\<lambda>r. id_col r = Some ''j1'') (jobs ?s1) \<and>
      get_int demo_platform (in_max_retries demo_payload) 3 = Inr 3 \<and>
      get_int demo_platform (in_attempts demo_payload) 0 = Inr 0 \<and>
      fits_int64 3 \<and> fits_int64 0"
    by (simp add: demo_payload_def get_int_def fits_int64_def)
  have g: "\<not> list_ex (\<lambda>r. id_col r = Some ''j1'') (jobs empty_store) \<and>
      get_int demo_platform (in_max_retries ?q) 3 = Inr 4 \<and>
      get_int demo_platform (in_attempts ?q) 0 = Inr 1 \<and>
      fits_int64 4 \<and> fits_int64 1"
    by (simp add: empty_store_def get_int_def fits_int64_def)
  note fresh = enqueue_fills_defaults [OF i c,
      where s = demo_config and pl = demo_platform and m = 5
        and t = "''2024-02-01T00:00:00Z''", THEN conjunct2, THEN conjunct2, THEN conjunct2, THEN conjunct2, THEN conjunct2, THEN conjunct2, THEN conjunct2, THEN conjunct1, THEN mp, OF h]
  note dup = enqueue_fills_defaults [OF i c,
      where s = ?s1 and pl = demo_platform and t = "''2024-02-02T00:00:00Z''"
        and mr = 3 and att = 0, THEN conjunct2, THEN conjunct2, THEN conjunct2, THEN conjunct2, THEN conjunct2, THEN conjunct2, THEN conjunct2, THEN conjunct2, THEN conjunct2, THEN conjunct2, THEN conjunct2, THEN conjunct2, THEN conjunct1, THEN mp, OF d]
  note row = enqueue_fills_defaults [OF iq cq,
      where s = empty_store and pl = demo_platform and t = "''2024-02-01T00:00:00Z''"
        and mr = 4 and att = 1, THEN conjunct1, THEN mp, OF g]
  have row': "enqueue demo_platform ''2024-02-01T00:00:00Z'' ?q empty_store =
     (empty_store\<lparr>jobs :=
         [\<lparr>id_col = Some ''j1'', command = ''exit 1'', state = ''pending'', attempts = 1,
           max_retries = 4, eta = None, created_at = ''2020-01-01T00:00:00Z'',
           updated_at = ''2020-01-01T00:00:00Z''\<rparr>]\<rparr>,
      Inr (Some ''j1''))"
    unfolding row by (simp add: or_else_def demo_payload_def empty_store_def)
  let ?r = "demo_payload\<lparr>in_created_at := Val ''2020-01-01T00:00:00Z''\<rparr>"
  have ir: "in_id ?r = Val ''j1''" and cr: "in_command ?r = Val ''exit 1''"
    by (simp_all add: demo_payload_def)
  have k: "\<not> list_ex (\<lambda>r. id_col r = Some ''j1'') (jobs demo_config) \<and>
      (in_max_retries ?r = Absent \<longrightarrow>
         py_int demo_platform (config_get ''max_retries'' (Some ''3'') demo_config) = Inr 5) \<and>
      get_int demo_platform (in_max_retries ?r) 5 = Inr 5 \<and>
      get_int demo_platform (in_attempts ?r) 0 = Inr 0 \<and>
      fits_int64 5 \<and> fits_int64 0"
    by (simp add: demo_payload_def demo_platform_def demo_config_def config_get_def
        config_set_def empty_store_def get_int_def fits_int64_def)
  note crow = enqueue_fills_defaults [OF ir cr,
      where s = demo_config and pl = demo_platform and t = "''2024-02-01T00:00:00Z''"
        and m = 5 and mr = 5 and att = 0, THEN conjunct2, THEN conjunct2, THEN conjunct2, THEN conjunct2, THEN conjunct2, THEN conjunct2, THEN conjunct2, THEN conjunct2, THEN conjunct2, THEN conjunct2, THEN conjunct2, THEN conjunct2, THEN conjunct2, THEN conjunct2, THEN conjunct2, THEN mp, OF k]
  have crow': "cmd_enqueue demo_platform ''2024-02-01T00:00:00Z'' ?r demo_config =
     (demo_config\<lparr>jobs :=
         [\<lparr>id_col = Some ''j1'', command = ''exit 1'', state = ''pending'', attempts = 0,
           max_retries = 5, eta = None, created_at = ''2020-01-01T00:00:00Z'',
           updated_at = ''2020-01-01T00:00:00Z''\<rparr>]\<rparr>,
      Inr (Some ''j1''))"
    unfolding crow by (simp add: or_else_def demo_payload_def j)
  from fresh have fresh': "cmd_enqueue demo_platform ''2024-02-01T00:00:00Z'' demo_payload demo_config =
     (demo_config\<lparr>jobs :=
         [\<lparr>id_col = Some ''j1'', command = ''exit 1'', state = ''pending'', attempts = 0,
           max_retries = 5, eta = None, created_at = ''2024-02-01T00:00:00Z'',
           updated_at = ''2024-02-01T00:00:00Z''\<rparr>]\<rparr>,
      Inr (Some ''j1''))"
    by (simp add: j)
  from i c fresh' dup row' crow' show ?thesis by (intro conjI)
qed

subsection \<open>The retry budget is kept\<close>

lemma store_ok_budget: "store_ok s \<Longrightarrow> within_retry_budget s"
  by (simp add: store_ok_def within_retry_budget_def budget_ok_def list_all_iff)

lemma list_all_update_jobs:
  "list_all P rows \<Longrightarrow>
   (\<And>r. r \<in> set rows \<Longrightarrow> sql_eq (id_col r) i \<Longrightarrow> P r \<Longrightarrow> P (f r)) \<Longrightarrow>
     list_all P (update_jobs i f rows)"
  unfolding update_jobs_def by (induction rows) simp_all

lemma store_ok_update:
  assumes "store_ok s" and "\<And>r. id_col (f r) = id_col r"
    and "\<And>r. r \<in> set (jobs s) \<Longrightarrow> sql_eq (id_col r) i \<Longrightarrow> budget_ok r \<Longrightarrow> budget_ok (f r)"
    and "jobs s' = update_jobs i f (jobs s)"
  shows "store_ok s'"
proof -
  from assms(1) have d: "distinct (filter (\<lambda>i. i \<noteq> None) (map id_col (jobs s)))"
    and a: "list_all budget_ok (jobs s)"
    by (simp_all add: store_ok_def)
  have "map id_col (jobs s') = map id_col (jobs s)"
    unfolding assms(4) by (rule update_jobs_id) (rule assms(2))
  moreover have "list_all budget_ok (jobs s')"
    unfolding assms(4) using a assms(3) by (rule list_all_update_jobs)
  ultimately show ?thesis using d by (simp add: store_ok_def)
qed

lemma store_ok_pop: "store_ok s \<Longrightarrow> store_ok (fst (pop_pending_for_run pl now t s))"
proof (cases "first_row (sql_pick pl now (jobs s)) (filter (eligible now) (jobs s))")
  case None
  assume "store_ok s"
  with None show ?thesis by (simp add: pop_pending_for_run_def)
next
  case (Some row)
  assume ok: "store_ok s"
  show ?thesis
    by (rule store_ok_update [OF ok, where i = "id_col row"
          and f = "\<lambda>r. r\<lparr>state := ''processing'', updated_at := t\<rparr>"])
       (simp_all add: pop_pending_for_run_def Some budget_ok_def)
qed

lemma store_ok_mark_completed: "store_ok s \<Longrightarrow> store_ok (mark_completed t i s)"
  by (rule store_ok_update [where i = i
        and f = "\<lambda>r. r\<lparr>state := ''completed'', updated_at := t, eta := None\<rparr>"])
     (simp_all add: mark_completed_def budget_ok_def)

lemma store_ok_move_to_dlq:
  assumes "store_ok s"
  shows "store_ok (fst (move_to_dlq t1 t2 r err s))"
proof (cases "id_col r")
  case None
  with assms show ?thesis by (simp add: move_to_dlq_def)
next
  case (Some i)
  show ?thesis
    by (rule store_ok_update [OF assms, where i = "Some i"
        and f = "\<lambda>r. r\<lparr>state := ''dead'', updated_at := t2, eta := None\<rparr>"])
       (simp_all add: move_to_dlq_def Some budget_ok_def)
qed

lemma store_ok_retry_from_dlq: "store_ok s \<Longrightarrow> store_ok (fst (retry_from_dlq t i s))"
proof (cases "list_ex (\<lambda>d. job_id d = i) (dlq s)")
  case False
  assume "store_ok s"
  with False show ?thesis by (simp add: retry_from_dlq_def)
next
  case True
  assume ok: "store_ok s"
  show ?thesis
    by (rule store_ok_update [OF ok, where i = "Some i"
          and f = "\<lambda>r. r\<lparr>state := ''pending'', attempts := 0, eta := None, updated_at := t\<rparr>"])
       (simp_all add: retry_from_dlq_def True budget_ok_def)
qed

lemma store_ok_mark_failed_retry:
  assumes "store_ok s"
    and "list_all (\<lambda>r. sql_eq (id_col r) i \<longrightarrow> n \<le> max_retries r) (jobs s)"
  shows "store_ok (fst (mark_failed_retry pl now t i n d s))"
proof (cases "fits_int64 n")
  case False
  with assms(1) show ?thesis by (simp add: mark_failed_retry_def)
next
  case True
  show ?thesis
  proof (rule store_ok_update [OF assms(1), where i = i
          and f = "\<lambda>r. r\<lparr>state := ''failed'', attempts := n,
                     eta := Some (float_add pl now d), updated_at := t\<rparr>"])
    fix r assume "r \<in> set (jobs s)" "sql_eq (id_col r) i" "budget_ok r"
    with assms(2) have "n \<le> max_retries r" by (simp add: list_all_iff)
    with \<open>budget_ok r\<close>
    show "budget_ok (r\<lparr>state := ''failed'', attempts := n,
                     eta := Some (float_add pl now d), updated_at := t\<rparr>)"
      by (simp add: budget_ok_def)
  qed (simp_all add: mark_failed_retry_def True)
qed

lemma distinct_filter_map_filter:
  "distinct (filter P (map f xs)) \<Longrightarrow> distinct (filter P (map f (filter Q xs)))"
  by (induction xs) auto

lemma store_ok_delete_job: "store_ok s \<Longrightarrow> store_ok (fst (delete_job i s))"
  by (simp add: store_ok_def delete_job_def distinct_filter_map_filter list_all_iff)

lemma store_ok_append:
  assumes "store_ok s" and "budget_ok row"
    and "\<not> list_ex (\<lambda>r. sql_eq (id_col r) (id_col row)) (jobs s)"
  shows "store_ok (s\<lparr>jobs := jobs s @ [row]\<rparr>)"
  using assms by (auto simp: store_ok_def sql_eq_def list_ex_iff)

lemma store_ok_enqueue:
  assumes "store_ok s"
    and "get_int pl (in_max_retries p) 3 = Inr mr" and "get_int pl (in_attempts p) 0 = Inr att"
    and "0 \<le> mr" and "att \<le> mr"
  shows "store_ok (fst (enqueue pl t p s))"
proof -
  have "fst (enqueue pl t p s) = s \<or>
    (\<exists>jid c st cr up. \<not> list_ex (\<lambda>r. sql_eq (id_col r) jid) (jobs s) \<and>
       fst (enqueue pl t p s) =
         s\<lparr>jobs := jobs s @ [\<lparr>id_col = jid, command = c, state = st, attempts = att,
            max_retries = mr, eta = None, created_at = cr, updated_at = up\<rparr>]\<rparr>)"
    using assms(2,3) by (simp add: enqueue_def Let_def split: sum.split option.split) blast
  then show ?thesis
  proof (elim disjE exE conjE)
    assume "fst (enqueue pl t p s) = s"
    with assms(1) show ?thesis by simp
  next
    fix jid c st cr up
    assume fresh: "\<not> list_ex (\<lambda>r. sql_eq (id_col r) jid) (jobs s)"
      and eq: "fst (enqueue pl t p s) =
         s\<lparr>jobs := jobs s @ [\<lparr>id_col = jid, command = c, state = st, attempts = att,
            max_retries = mr, eta = None, created_at = cr, updated_at = up\<rparr>]\<rparr>"
    show ?thesis unfolding eq
      by (rule store_ok_append [OF assms(1)]) (simp_all add: budget_ok_def assms(4,5) fresh)
  qed
qed

lemma store_ok_same_id:
  assumes "store_ok s" and "a \<in> set (jobs s)" and "b \<in> set (jobs s)"
    and "id_col a = id_col b" and "id_col a \<noteq> None"
  shows "a = b"
proof -
  from assms(1) have "distinct (map id_col (filter (\<lambda>r. id_col r \<noteq> None) (jobs s)))"
    by (simp add: store_ok_def filter_map comp_def)
  then have inj: "inj_on id_col (set (filter (\<lambda>r. id_col r \<noteq> None) (jobs s)))"
    by (simp add: distinct_map)
  have ma: "a \<in> set (filter (\<lambda>r. id_col r \<noteq> None) (jobs s))"
    and mb: "b \<in> set (filter (\<lambda>r. id_col r \<noteq> None) (jobs s))"
    using assms(2-5) by simp_all
  from inj assms(4) ma mb show ?thesis by (rule inj_onD)
qed


lemma retry_or_dlq_raise: "retry_or_dlq pl e jb n err s = (s2, Some x) \<Longrightarrow> s2 = s"
  by (auto simp: retry_or_dlq_def mark_failed_retry_def move_to_dlq_def Let_def
      split: if_splits sum.splits option.splits)

lemma store_ok_retry_or_dlq:
  assumes "store_ok s"
    and "list_all (\<lambda>r. sql_eq (id_col r) (id_col jb) \<longrightarrow> max_retries r = max_retries jb)
           (jobs s)"
  shows "store_ok (fst (retry_or_dlq pl e jb n err s))"
proof (cases "n > max_retries jb")
  case True
  then show ?thesis using assms(1) by (simp add: retry_or_dlq_def store_ok_move_to_dlq)
next
  case False
  show ?thesis
  proof (cases "py_float pl (config_get ''backoff_base'' (Some ''2'') s)")
    case (Inl x)
    with False assms(1) show ?thesis by (simp add: retry_or_dlq_def)
  next
    case (Inr base)
    show ?thesis
    proof (cases "compute_delay pl base n")
      case (Inl x)
      with False \<open>py_float pl (config_get ''backoff_base'' (Some ''2'') s) = Inr base\<close> assms(1)
      show ?thesis by (simp add: retry_or_dlq_def)
    next
      case (Inr delay)
      from assms(2) False
      have "list_all (\<lambda>r. sql_eq (id_col r) (id_col jb) \<longrightarrow> n \<le> max_retries r) (jobs s)"
        by (simp add: list_all_iff)
      from store_ok_mark_failed_retry [OF assms(1) this] False Inr
        \<open>py_float pl (config_get ''backoff_base'' (Some ''2'') s) = Inr base\<close>
      show ?thesis by (simp add: retry_or_dlq_def)
    qed
  qed
qed

lemma pop_same_max_retries:
  assumes "store_ok s" and "pop_pending_for_run pl now t s = (s1, Some jb)"
  shows "list_all (\<lambda>r. sql_eq (id_col r) (id_col jb) \<longrightarrow> max_retries r = max_retries jb)
           (jobs s1)"
  unfolding list_all_iff
proof (intro ballI impI)
  fix r assume r: "r \<in> set (jobs s1)" "sql_eq (id_col r) (id_col jb)"
  from r(2) have eq: "id_col r = id_col jb" and rn: "id_col r \<noteq> None"
    unfolding sql_eq_def by blast+
  from rn have nn: "id_col jb \<noteq> None" unfolding eq .
  let ?f = "\<lambda>r. r\<lparr>state := ''processing'', updated_at := t\<rparr>"
  have idf: "\<And>r. id_col (?f r) = id_col r" by simp
  from r(1) have "r \<in> set (update_jobs (id_col jb) ?f (jobs s))"
    by (simp add: pop_Some(2) [OF assms(2)])
  from update_jobs_mem [OF this eq nn idf]
  obtain r0 where r0: "r0 \<in> set (jobs s)" "id_col r0 = id_col jb" "r = ?f r0" by blast
  from nn r0(2) have "id_col r0 \<noteq> None" by simp
  from store_ok_same_id [OF assms(1) r0(1) pop_row(1) [OF assms(2)] r0(2) this]
  have "r0 = jb" .
  with r0(3) show "max_retries r = max_retries jb" by simp
qed

lemma store_ok_loop_body:
  assumes "store_ok s"
  shows "store_ok (fst (loop_body pl e s))"
proof -
  obtain s1 res where pop: "pop_pending_for_run pl (t_pop e) (iso_pop e) s = (s1, res)"
    by (cases "pop_pending_for_run pl (t_pop e) (iso_pop e) s")
  from store_ok_pop [OF assms, of pl "t_pop e" "iso_pop e"] pop have ok1: "store_ok s1"
    by simp
  show ?thesis
  proof (cases res)
    case None
    with pop ok1 show ?thesis by (simp add: loop_body_def)
  next
    case (Some jb)
    note same = pop_same_max_retries [OF assms pop [unfolded Some]]
    note step = store_ok_retry_or_dlq [OF ok1 same]
    show ?thesis
    proof (cases "ran e")
      case (Returned rc)
      show ?thesis
      proof (cases "rc = 0")
        case True
        with pop Some Returned ok1 show ?thesis
          by (simp add: loop_body_def store_ok_mark_completed)
      next
        case False
        obtain s2 x where first:
          "retry_or_dlq pl e jb (attempts jb + 1) (''Exit '' @ str_int rc) s1 = (s2, x)"
          by (cases "retry_or_dlq pl e jb (attempts jb + 1) (''Exit '' @ str_int rc) s1")
        show ?thesis
        proof (cases x)
          case None
          from step [of pl e "attempts jb + 1" "''Exit '' @ str_int rc"] first
          have "store_ok s2" by simp
          with pop Some Returned False first None show ?thesis
            by (simp add: loop_body_def)
        next
          case (Some y)
          from retry_or_dlq_raise [OF first [unfolded Some]] have "s2 = s1" .
          with pop \<open>res = Some jb\<close> Returned False first Some
            step [of pl e "attempts jb + 1 + 1" "exc_name y @ '': '' @ exc_str y"]
          show ?thesis by (simp add: loop_body_def)
        qed
      qed
    next
      case (FileNotFound m)
      with pop Some step [of pl e "attempts jb + 1" "''FileNotFoundError: '' @ m"]
      show ?thesis by (simp add: loop_body_def)
    next
      case (Raised nm m)
      with pop Some step [of pl e "attempts jb + 1" "nm @ '': '' @ m"]
      show ?thesis by (simp add: loop_body_def)
    qed
  qed
qed

lemma store_ok_worker_loop: "store_ok s \<Longrightarrow> store_ok (fst (worker_loop pl es s))"
proof (induction es arbitrary: s)
  case Nil
  then show ?case by simp
next
  case (Cons e es)
  obtain s' x where body: "loop_body pl e s = (s', x)" by (cases "loop_body pl e s")
  from store_ok_loop_body [OF Cons.prems, of pl e] body have ok: "store_ok s'" by simp
  show ?case
  proof (cases "sig_stop e \<or> is_stop_requested s")
    case True
    with Cons.prems show ?thesis by simp
  next
    case False
    show ?thesis
    proof (cases x)
      case None
      with False body Cons.IH [OF ok] show ?thesis by simp
    next
      case (Some y)
      with False body ok show ?thesis by simp
    qed
  qed
qed

lemma move_to_dlq_dead:
  "id_col r \<noteq> None \<Longrightarrow>
   list_all (\<lambda>x. if id_col x = id_col r then state x = ''dead'' else True)
     (jobs (fst (move_to_dlq t1 t2 r err s)))"
  by (auto simp: move_to_dlq_def update_jobs_def sql_eq_def list_all_iff)

lemma loop_body_dead_letters:
  assumes "pop_pending_for_run pl (t_pop e) (iso_pop e) s = (s1, Some jb)"
    and "max_retries jb < attempts jb + 1" and "ran e \<noteq> Returned 0"
    and "id_col jb \<noteq> None"
  shows "\<exists>err. loop_body pl e s =
           (fst (move_to_dlq (iso_done e) (iso_done2 e) jb err s1), None)"
proof -
  from assms(4) obtain i where i: "id_col jb = Some i" by blast
  note mv = move_to_dlq_Some [OF i]
  show ?thesis
  proof (cases "ran e")
    case (Returned rc)
    with assms(3) have "rc \<noteq> 0" by simp
    with assms(1,2) Returned have "loop_body pl e s =
        (fst (move_to_dlq (iso_done e) (iso_done2 e) jb (''Exit '' @ str_int rc) s1), None)"
      by (simp add: loop_body_def retry_or_dlq_def mv)
    then show ?thesis ..
  next
    case (FileNotFound m)
    with assms(1,2) have "loop_body pl e s =
        (fst (move_to_dlq (iso_done e) (iso_done2 e) jb (''FileNotFoundError: '' @ m) s1),
         None)"
      by (simp add: loop_body_def retry_or_dlq_def mv)
    then show ?thesis ..
  next
    case (Raised nm m)
    with assms(1,2) have "loop_body pl e s =
        (fst (move_to_dlq (iso_done e) (iso_done2 e) jb (nm @ '': '' @ m) s1), None)"
      by (simp add: loop_body_def retry_or_dlq_def mv)
    then show ?thesis ..
  qed
qed


text \<open>
  Claim C6, as the claim states it, fails: \<^verbatim>\<open>enqueue\<close> stores the \<open>attempts\<close> and
  \<open>max_retries\<close> it is given and \<^verbatim>\<open>mark_failed_retry\<close> the \<open>attempts\<close> it is given, with no
  check. A job enqueued with \<open>attempts = 5\<close> and \<open>max_retries = 3\<close> is pending and over its
  budget; \<^verbatim>\<open>mark_failed_retry\<close> with \<open>attempts = 7\<close> on a job with \<open>max_retries = 3\<close> leaves it
  failed and over its budget.
\<close>

theorem retry_budget_not_preserved:
  "within_retry_budget empty_store \<and>
   \<not> within_retry_budget
       (fst (enqueue demo_platform ''2024-02-01T00:00:00Z''
          (demo_payload\<lparr>in_attempts := Val 5, in_max_retries := Val 3\<rparr>) empty_store)) \<and>
   within_retry_budget demo_store \<and>
   \<not> within_retry_budget
       (fst (mark_failed_retry demo_platform 100 ''2024-02-01T00:01:40Z'' (Some ''a'') 7 2
          demo_store))"
  by (simp add: within_retry_budget_def in_circulation_def enqueue_def mark_failed_retry_def
      update_jobs_def sql_eq_def subscript_def or_else_def get_int_def fits_int64_def
      demo_payload_def demo_defs Let_def)

text \<open>
  Claim C6, amended. In a store where no two rows share an id (other than \<^verbatim>\<open>NULL\<close>) and
  every row has \<open>0 \<le> max_retries\<close> and \<open>attempts \<le> max_retries\<close>, every job in state
  pending, processing, completed or failed has \<open>attempts \<le> max_retries\<close>, and the store
  stays so under the claim operation, \<^verbatim>\<open>mark_completed\<close>, \<^verbatim>\<open>move_to_dlq\<close>,
  \<^verbatim>\<open>retry_from_dlq\<close>, \<^verbatim>\<open>delete_job\<close>, the worker registry, the control flag and the
  configuration, under \<^verbatim>\<open>enqueue\<close> of a job whose own \<open>attempts\<close> and \<open>max_retries\<close>
  (defaults 0 and 3) are so, under \<^verbatim>\<open>mark_failed_retry\<close> with an \<open>attempts\<close> that is at most
  the job's \<open>max_retries\<close>, and under the worker (one turn of its loop, and the whole
  loop). A claimed job (with an id that is not \<^verbatim>\<open>NULL\<close>) whose run fails with
  \<open>attempts + 1 > max_retries\<close> is dead-lettered in that turn: its state becomes \<open>dead\<close>.
\<close>

theorem retry_budget_preserved:
  assumes "store_ok s"
  shows "within_retry_budget s \<and>
    store_ok (fst (pop_pending_for_run pl now t s)) \<and>
    store_ok (mark_completed t j s) \<and>
    store_ok (fst (move_to_dlq t t' r err s)) \<and>
    store_ok (fst (retry_from_dlq t i s)) \<and>
    store_ok (fst (delete_job i s)) \<and>
    store_ok (register_worker t w qs s) \<and> store_ok (deregister_worker w s) \<and>
    store_ok (request_stop s) \<and> store_ok (clear_stop s) \<and> store_ok (config_set k v s) \<and>
    (get_int pl (in_max_retries p) 3 = Inr mr \<and> get_int pl (in_attempts p) 0 = Inr att \<and>
     0 \<le> mr \<and> att \<le> mr \<longrightarrow>
       store_ok (fst (enqueue pl t p s))) \<and>
    (list_all (\<lambda>x. sql_eq (id_col x) j \<longrightarrow> n \<le> max_retries x) (jobs s) \<longrightarrow>
       store_ok (fst (mark_failed_retry pl now t j n d s))) \<and>
    store_ok (fst (loop_body pl e s)) \<and>
    store_ok (fst (worker_loop pl es s)) \<and>
    (pop_pending_for_run pl (t_pop e) (iso_pop e) s = (s1, Some jb) \<and> id_col jb \<noteq> None \<and>
     max_retries jb < attempts jb + 1 \<and> ran e \<noteq> Returned 0 \<longrightarrow>
       (\<exists>msg. loop_body pl e s =
          (fst (move_to_dlq (iso_done e) (iso_done2 e) jb msg s1), None)) \<and>
       list_all (\<lambda>x. if id_col x = id_col jb then state x = ''dead'' else True)
         (jobs (fst (loop_body pl e s))))"
proof (intro conjI impI)
  show "within_retry_budget s" using assms by (rule store_ok_budget)
  show "store_ok (fst (pop_pending_for_run pl now t s))" using assms by (rule store_ok_pop)
  show "store_ok (mark_completed t j s)" using assms by (rule store_ok_mark_completed)
  show "store_ok (fst (move_to_dlq t t' r err s))" using assms by (rule store_ok_move_to_dlq)
  show "store_ok (fst (retry_from_dlq t i s))" using assms by (rule store_ok_retry_from_dlq)
  show "store_ok (fst (delete_job i s))" using assms by (rule store_ok_delete_job)
  show "store_ok (register_worker t w qs s)"
    using assms by (simp add: store_ok_def register_worker_def)
  show "store_ok (deregister_worker w s)"
    using assms by (simp add: store_ok_def deregister_worker_def)
  show "store_ok (request_stop s)"
    using assms by (simp add: store_ok_def request_stop_def)
  show "store_ok (clear_stop s)"
    using assms by (simp add: store_ok_def clear_stop_def)
  show "store_ok (config_set k v s)"
    using assms by (simp add: store_ok_def config_set_def)
  show "store_ok (fst (loop_body pl e s))" using assms by (rule store_ok_loop_body)
  show "store_ok (fst (worker_loop pl es s))" using assms by (rule store_ok_worker_loop)
next
  assume h: "get_int pl (in_max_retries p) 3 = Inr mr \<and>
     get_int pl (in_attempts p) 0 = Inr att \<and> 0 \<le> mr \<and> att \<le> mr"
  show "store_ok (fst (enqueue pl t p s))"
    by (rule store_ok_enqueue [OF assms h [THEN conjunct1] h [THEN conjunct2, THEN conjunct1]
          h [THEN conjunct2, THEN conjunct2, THEN conjunct1]
          h [THEN conjunct2, THEN conjunct2, THEN conjunct2]])
next
  assume "list_all (\<lambda>x. sql_eq (id_col x) j \<longrightarrow> n \<le> max_retries x) (jobs s)"
  then show "store_ok (fst (mark_failed_retry pl now t j n d s))"
    using assms by (intro store_ok_mark_failed_retry)
next
  assume h: "pop_pending_for_run pl (t_pop e) (iso_pop e) s = (s1, Some jb) \<and>
     id_col jb \<noteq> None \<and> max_retries jb < attempts jb + 1 \<and> ran e \<noteq> Returned 0"
  show "\<exists>msg. loop_body pl e s =
          (fst (move_to_dlq (iso_done e) (iso_done2 e) jb msg s1), None)"
    by (rule loop_body_dead_letters [OF h [THEN conjunct1]
          h [THEN conjunct2, THEN conjunct2, THEN conjunct1]
          h [THEN conjunct2, THEN conjunct2, THEN conjunct2]
          h [THEN conjunct2, THEN conjunct1]])
next
  assume h: "pop_pending_for_run pl (t_pop e) (iso_pop e) s = (s1, Some jb) \<and>
     id_col jb \<noteq> None \<and> max_retries jb < attempts jb + 1 \<and> ran e \<noteq> Returned 0"
  have "\<exists>msg. loop_body pl e s =
          (fst (move_to_dlq (iso_done e) (iso_done2 e) jb msg s1), None)"
    by (rule loop_body_dead_letters [OF h [THEN conjunct1]
          h [THEN conjunct2, THEN conjunct2, THEN conjunct1]
          h [THEN conjunct2, THEN conjunct2, THEN conjunct2]
          h [THEN conjunct2, THEN conjunct1]])
  then obtain msg where "loop_body pl e s =
          (fst (move_to_dlq (iso_done e) (iso_done2 e) jb msg s1), None)" ..
  then show "list_all (\<lambda>x. if id_col x = id_col jb then state x = ''dead'' else True)
         (jobs (fst (loop_body pl e s)))"
    by (simp add: move_to_dlq_dead [OF h [THEN conjunct2, THEN conjunct1]])
qed

theorem retry_budget_preserved_witness:
  "store_ok demo_store \<and> within_retry_budget demo_store \<and>
   store_ok (fst (loop_body demo_platform failing_turn demo_store)) \<and>
   get_int demo_platform (in_max_retries demo_payload) 3 = Inr 3 \<and>
   get_int demo_platform (in_attempts demo_payload) 0 = Inr 0 \<and>
   store_ok (fst (enqueue demo_platform ''2024-02-01T00:00:00Z'' demo_payload demo_store)) \<and>
   store_ok (fst (mark_failed_retry demo_platform 101 ''2024-02-01T00:01:41Z'' (Some ''a'') 2 4
      demo_store)) \<and>
   pop_pending_for_run demo_platform (t_pop failing_turn) (iso_pop failing_turn)
       (empty_store\<lparr>jobs := [row_z]\<rparr>) =
     (empty_store\<lparr>jobs := [row_z\<lparr>state := ''processing'',
         updated_at := ''2024-02-01T00:01:40Z''\<rparr>]\<rparr>, Some row_z) \<and>
   id_col row_z \<noteq> None \<and> max_retries row_z < attempts row_z + 1 \<and>
   list_all (\<lambda>x. if id_col x = id_col row_z then state x = ''dead'' else True)
     (jobs (fst (loop_body demo_platform failing_turn (empty_store\<lparr>jobs := [row_z]\<rparr>))))"
proof -
  let ?z = "empty_store\<lparr>jobs := [row_z]\<rparr>"
  let ?z1 = "empty_store\<lparr>jobs := [row_z\<lparr>state := ''processing'',
         updated_at := ''2024-02-01T00:01:40Z''\<rparr>]\<rparr>"
  have ok: "store_ok demo_store"
    by (simp add: store_ok_def budget_ok_def demo_defs)
  have okz: "store_ok ?z"
    by (simp add: store_ok_def budget_ok_def demo_defs)
  have p1: "get_int demo_platform (in_max_retries demo_payload) 3 = Inr 3"
    and p2: "get_int demo_platform (in_attempts demo_payload) 0 = Inr 0"
    by (simp_all add: get_int_def demo_payload_def)
  have p: "get_int demo_platform (in_max_retries demo_payload) 3 = Inr 3 \<and>
     get_int demo_platform (in_attempts demo_payload) 0 = Inr 0 \<and> (0::int) \<le> 3 \<and> (0::int) \<le> 3"
    using p1 p2 by simp
  have m: "list_all (\<lambda>x. sql_eq (id_col x) (Some ''a'') \<longrightarrow> 2 \<le> max_retries x)
      (jobs demo_store)"
    by (simp add: sql_eq_def demo_defs)
  have pop: "pop_pending_for_run demo_platform (t_pop failing_turn) (iso_pop failing_turn) ?z =
     (?z1, Some row_z)"
    by (simp add: pop_pending_for_run_def first_row_def minimal_rows_def eligible_def
        precedes_def update_jobs_def sql_eq_def failing_turn_def demo_platform_def demo_defs)
  have nn: "id_col row_z \<noteq> None" by (simp add: row_z_def)
  have lt: "max_retries row_z < attempts row_z + 1" by (simp add: row_z_def)
  have ne: "ran failing_turn \<noteq> Returned 0" by (simp add: failing_turn_def)
  note inst = retry_budget_preserved [OF ok, where p = demo_payload
      and t = "''2024-02-01T00:00:00Z''" and pl = demo_platform and e = failing_turn
      and mr = 3 and att = 0]
  note inst2 = retry_budget_preserved [OF ok, where now = 101 and pl = demo_platform
      and t = "''2024-02-01T00:01:41Z''" and j = "Some ''a''" and n = 2 and d = 4]
  note instz = retry_budget_preserved [OF okz, where pl = demo_platform
      and e = failing_turn and ?s1.0 = ?z1 and jb = row_z]
  note a = inst [THEN conjunct1]
  note b = inst [THEN conjunct2, THEN conjunct2, THEN conjunct2, THEN conjunct2, THEN conjunct2, THEN conjunct2, THEN conjunct2, THEN conjunct2, THEN conjunct2, THEN conjunct2, THEN conjunct2, THEN conjunct2, THEN conjunct2, THEN conjunct1]
  note c = inst [THEN conjunct2, THEN conjunct2, THEN conjunct2, THEN conjunct2, THEN conjunct2, THEN conjunct2, THEN conjunct2, THEN conjunct2, THEN conjunct2, THEN conjunct2, THEN conjunct2, THEN conjunct1, THEN mp, OF p]
  note d = inst2 [THEN conjunct2, THEN conjunct2, THEN conjunct2, THEN conjunct2, THEN conjunct2, THEN conjunct2, THEN conjunct2, THEN conjunct2, THEN conjunct2, THEN conjunct2, THEN conjunct2, THEN conjunct2, THEN conjunct1, THEN mp, OF m]
  note e = instz [THEN conjunct2, THEN conjunct2, THEN conjunct2, THEN conjunct2, THEN conjunct2, THEN conjunct2, THEN conjunct2, THEN conjunct2, THEN conjunct2, THEN conjunct2, THEN conjunct2, THEN conjunct2, THEN conjunct2, THEN conjunct2, THEN conjunct2, THEN mp, OF conjI [OF pop conjI [OF nn conjI [OF lt ne]]],
      THEN conjunct2]
  from ok a b p1 p2 c d pop nn lt e show ?thesis
    by (intro conjI)
qed

subsection \<open>Retries after a failure\<close>

lemma loop_body_idle:
  assumes "list_all (\<lambda>r. state r \<noteq> ''pending'') (jobs s)"
  shows "loop_body pl e s = (s, None)"
proof -
  from assms have "filter (eligible (t_pop e)) (jobs s) = []"
    by (simp add: list_all_iff filter_empty_conv eligible_def)
  then show ?thesis
    by (simp add: loop_body_def pop_pending_for_run_def first_row_None [THEN iffD2])
qed

lemma worker_loop_idle:
  assumes "list_all (\<lambda>r. state r \<noteq> ''pending'') (jobs s)"
  shows "fst (worker_loop pl es s) = s"
  by (induction es) (simp_all add: loop_body_idle [OF assms])

text \<open>
  Claim C1 says that a job enqueued with \<open>attempts = 0\<close> and \<open>max_retries = N\<close> is dead
  after \<open>N + 1\<close> failed runs, with one DLQ record and the attempts counted. The worker does
  otherwise. With \<open>N = 1\<close>: the first failure parks the job in state \<open>failed\<close> (attempts 1,
  \<open>eta\<close> two seconds later); the claim query takes pending jobs only, so the second turn of
  the loop finds nothing, and the job stays \<open>failed\<close> with no DLQ record, whatever turns
  follow. With \<open>N = 0\<close>: the one failure dead-letters the job, but \<^verbatim>\<open>move_to_dlq\<close> does not
  store the incremented count, so the row and the DLQ payload both say \<open>attempts = 0\<close>.
\<close>

theorem failed_job_is_not_claimed_again:
  "worker_loop demo_platform [failing_turn, failing_turn\<lparr>t_pop := 200, t_done := 201\<rparr>]
     (fst (enqueue demo_platform ''2024-02-01T00:00:00Z''
        (demo_payload\<lparr>in_max_retries := Val 1\<rparr>) empty_store)) =
     (empty_store\<lparr>jobs :=
         [\<lparr>id_col = Some ''j1'', command = ''exit 1'', state = ''failed'', attempts = 1,
           max_retries = 1, eta = Some 103, created_at = ''2024-02-01T00:00:00Z'',
           updated_at = ''2024-02-01T00:01:41Z''\<rparr>]\<rparr>,
      Running) \<and>
   worker_loop demo_platform [failing_turn]
     (fst (enqueue demo_platform ''2024-02-01T00:00:00Z''
        (demo_payload\<lparr>in_max_retries := Val 0\<rparr>) empty_store)) =
     (empty_store\<lparr>jobs :=
         [\<lparr>id_col = Some ''j1'', command = ''exit 1'', state = ''dead'', attempts = 0,
           max_retries = 0, eta = None, created_at = ''2024-02-01T00:00:00Z'',
           updated_at = ''2024-02-01T00:01:41Z''\<rparr>],
        dlq :=
         [\<lparr>dlq_id = 1, job_id = ''j1'',
           payload = \<lparr>id_col = Some ''j1'', command = ''exit 1'', state = ''pending'',
             attempts = 0, max_retries = 0, eta = None,
             created_at = ''2024-02-01T00:00:00Z'',
             updated_at = ''2024-02-01T00:00:00Z''\<rparr>,
           last_error = ''Exit 1'', failed_at = ''2024-02-01T00:01:41Z''\<rparr>],
        dlq_seq := 1\<rparr>,
      Running) \<and>
   (\<forall>es. fst (worker_loop demo_platform (failing_turn # es)
       (fst (enqueue demo_platform ''2024-02-01T00:00:00Z''
          (demo_payload\<lparr>in_max_retries := Val 1\<rparr>) empty_store))) =
     empty_store\<lparr>jobs :=
         [\<lparr>id_col = Some ''j1'', command = ''exit 1'', state = ''failed'', attempts = 1,
           max_retries = 1, eta = Some 103, created_at = ''2024-02-01T00:00:00Z'',
           updated_at = ''2024-02-01T00:01:41Z''\<rparr>]\<rparr>)"
proof -
  let ?f = "\<lparr>id_col = Some ''j1'', command = ''exit 1'', state = ''failed'', attempts = 1,
           max_retries = 1, eta = Some 103, created_at = ''2024-02-01T00:00:00Z'',
           updated_at = ''2024-02-01T00:01:41Z''\<rparr>"
  have e1: "fst (enqueue demo_platform ''2024-02-01T00:00:00Z''
        (demo_payload\<lparr>in_max_retries := Val 1\<rparr>) empty_store) =
      empty_store\<lparr>jobs :=
         [\<lparr>id_col = Some ''j1'', command = ''exit 1'', state = ''pending'', attempts = 0,
           max_retries = 1, eta = None, created_at = ''2024-02-01T00:00:00Z'',
           updated_at = ''2024-02-01T00:00:00Z''\<rparr>]\<rparr>"
    by (simp add: enqueue_def subscript_def or_else_def get_int_def fits_int64_def
        sql_eq_def demo_payload_def empty_store_def Let_def)
  have e0: "fst (enqueue demo_platform ''2024-02-01T00:00:00Z''
        (demo_payload\<lparr>in_max_retries := Val 0\<rparr>) empty_store) =
      empty_store\<lparr>jobs :=
         [\<lparr>id_col = Some ''j1'', command = ''exit 1'', state = ''pending'', attempts = 0,
           max_retries = 0, eta = None, created_at = ''2024-02-01T00:00:00Z'',
           updated_at = ''2024-02-01T00:00:00Z''\<rparr>]\<rparr>"
    by (simp add: enqueue_def subscript_def or_else_def get_int_def fits_int64_def
        sql_eq_def demo_payload_def empty_store_def Let_def)
  have b1: "loop_body demo_platform failing_turn
      (empty_store\<lparr>jobs :=
         [\<lparr>id_col = Some ''j1'', command = ''exit 1'', state = ''pending'', attempts = 0,
           max_retries = 1, eta = None, created_at = ''2024-02-01T00:00:00Z'',
           updated_at = ''2024-02-01T00:00:00Z''\<rparr>]\<rparr>) =
      (empty_store\<lparr>jobs := [?f]\<rparr>, None)"
    by (simp add: loop_body_def retry_or_dlq_def pop_pending_for_run_def first_row_def
        minimal_rows_def eligible_def precedes_def update_jobs_def sql_eq_def
        mark_failed_retry_def config_get_def compute_delay_def fits_int64_def
        demo_platform_def failing_turn_def empty_store_def Let_def)
  have b0: "loop_body demo_platform failing_turn
      (empty_store\<lparr>jobs :=
         [\<lparr>id_col = Some ''j1'', command = ''exit 1'', state = ''pending'', attempts = 0,
           max_retries = 0, eta = None, created_at = ''2024-02-01T00:00:00Z'',
           updated_at = ''2024-02-01T00:00:00Z''\<rparr>]\<rparr>) =
      (empty_store\<lparr>jobs :=
         [\<lparr>id_col = Some ''j1'', command = ''exit 1'', state = ''dead'', attempts = 0,
           max_retries = 0, eta = None, created_at = ''2024-02-01T00:00:00Z'',
           updated_at = ''2024-02-01T00:01:41Z''\<rparr>],
        dlq :=
         [\<lparr>dlq_id = 1, job_id = ''j1'',
           payload = \<lparr>id_col = Some ''j1'', command = ''exit 1'', state = ''pending'',
             attempts = 0, max_retries = 0, eta = None,
             created_at = ''2024-02-01T00:00:00Z'',
             updated_at = ''2024-02-01T00:00:00Z''\<rparr>,
           last_error = ''Exit 1'', failed_at = ''2024-02-01T00:01:41Z''\<rparr>],
        dlq_seq := 1\<rparr>, None)"
    by (simp add: loop_body_def retry_or_dlq_def pop_pending_for_run_def first_row_def
        minimal_rows_def eligible_def precedes_def update_jobs_def sql_eq_def
        move_to_dlq_def str_int_def str_nat.simps
        demo_platform_def failing_turn_def empty_store_def Let_def)
  have idle: "list_all (\<lambda>r. state r \<noteq> ''pending'') (jobs (empty_store\<lparr>jobs := [?f]\<rparr>))"
    by simp
  have st: "\<not> is_stop_requested (empty_store\<lparr>jobs := js\<rparr>)" for js
    by (simp add: is_stop_requested_def empty_store_def)
  have sg: "\<not> sig_stop failing_turn" by (simp add: failing_turn_def)
  have two: "worker_loop demo_platform [failing_turn\<lparr>t_pop := 200, t_done := 201\<rparr>]
      (empty_store\<lparr>jobs := [?f]\<rparr>) = (empty_store\<lparr>jobs := [?f]\<rparr>, Running)"
    using st [of "[?f]"] by (simp add: loop_body_idle [OF idle] failing_turn_def)
  have a: "worker_loop demo_platform [failing_turn, failing_turn\<lparr>t_pop := 200, t_done := 201\<rparr>]
     (fst (enqueue demo_platform ''2024-02-01T00:00:00Z''
        (demo_payload\<lparr>in_max_retries := Val 1\<rparr>) empty_store)) =
     (empty_store\<lparr>jobs := [?f]\<rparr>, Running)"
    unfolding e1 using st sg two by (simp add: b1)
  have b: "worker_loop demo_platform [failing_turn]
     (fst (enqueue demo_platform ''2024-02-01T00:00:00Z''
        (demo_payload\<lparr>in_max_retries := Val 0\<rparr>) empty_store)) =
     (empty_store\<lparr>jobs :=
         [\<lparr>id_col = Some ''j1'', command = ''exit 1'', state = ''dead'', attempts = 0,
           max_retries = 0, eta = None, created_at = ''2024-02-01T00:00:00Z'',
           updated_at = ''2024-02-01T00:01:41Z''\<rparr>],
        dlq :=
         [\<lparr>dlq_id = 1, job_id = ''j1'',
           payload = \<lparr>id_col = Some ''j1'', command = ''exit 1'', state = ''pending'',
             attempts = 0, max_retries = 0, eta = None,
             created_at = ''2024-02-01T00:00:00Z'',
             updated_at = ''2024-02-01T00:00:00Z''\<rparr>,
           last_error = ''Exit 1'', failed_at = ''2024-02-01T00:01:41Z''\<rparr>],
        dlq_seq := 1\<rparr>,
      Running)"
    unfolding e0 using st sg by (simp add: b0)
  have c: "\<forall>es. fst (worker_loop demo_platform (failing_turn # es)
       (fst (enqueue demo_platform ''2024-02-01T00:00:00Z''
          (demo_payload\<lparr>in_max_retries := Val 1\<rparr>) empty_store))) =
     empty_store\<lparr>jobs := [?f]\<rparr>"
    unfolding e1 using st sg by (simp add: b1 worker_loop_idle [OF idle])
  from a b c show ?thesis by (intro conjI)
qed

end
